theory Spec2Isabelle
  imports Complex_Main
begin

section \<open>Vectors and boxes (core/Vector.h, core/Box.h)\<close>

text \<open>
  The program computes in single-precision floats. The embedding reads every \<open>float\<close> as a
  real number: rounding, infinities and NaN are not represented, and a division whose
  divisor is zero is excluded by a hypothesis wherever a statement depends on it.
  A \<open>Vector3f\<close> is a triple of reals; the operations below are the componentwise
  operators the sources use (\<open>+\<close>, \<open>-\<close>, scalar \<open>*\<close>, \<open>cwiseProduct\<close>, \<open>cwiseQuotient\<close>,
  \<open>dot\<close>, \<open>cross\<close>, \<open>squaredNorm\<close>, \<open>norm\<close>, \<open>normalized\<close>).
\<close>

type_synonym Vector3f = "real \<times> real \<times> real"

definition vx :: "Vector3f \<Rightarrow> real" where
  "vx v = fst v"

definition vy :: "Vector3f \<Rightarrow> real" where
  "vy v = fst (snd v)"

definition vz :: "Vector3f \<Rightarrow> real" where
  "vz v = snd (snd v)"

definition vzero :: Vector3f where
  "vzero = (0, 0, 0)"

text \<open>\<open>Vector3f(s)\<close>: the constructor from one scalar fills every component.\<close>

definition vconst :: "real \<Rightarrow> Vector3f" where
  "vconst s = (s, s, s)"

definition vadd :: "Vector3f \<Rightarrow> Vector3f \<Rightarrow> Vector3f" where
  "vadd a b = (vx a + vx b, vy a + vy b, vz a + vz b)"

definition vsub :: "Vector3f \<Rightarrow> Vector3f \<Rightarrow> Vector3f" where
  "vsub a b = (vx a - vx b, vy a - vy b, vz a - vz b)"

definition smul :: "real \<Rightarrow> Vector3f \<Rightarrow> Vector3f" where
  "smul s a = (s * vx a, s * vy a, s * vz a)"

definition vneg :: "Vector3f \<Rightarrow> Vector3f" where
  "vneg a = (- vx a, - vy a, - vz a)"

definition cwiseProduct :: "Vector3f \<Rightarrow> Vector3f \<Rightarrow> Vector3f" where
  "cwiseProduct a b = (vx a * vx b, vy a * vy b, vz a * vz b)"

definition cwiseQuotient :: "Vector3f \<Rightarrow> Vector3f \<Rightarrow> Vector3f" where
  "cwiseQuotient a b = (vx a / vx b, vy a / vy b, vz a / vz b)"

definition dot :: "Vector3f \<Rightarrow> Vector3f \<Rightarrow> real" where
  "dot a b = vx a * vx b + vy a * vy b + vz a * vz b"

definition cross :: "Vector3f \<Rightarrow> Vector3f \<Rightarrow> Vector3f" where
  "cross a b = (vy a * vz b - vz a * vy b, vz a * vx b - vx a * vz b, vx a * vy b - vy a * vx b)"

definition squaredNorm :: "Vector3f \<Rightarrow> real" where
  "squaredNorm a = dot a a"

definition vnorm :: "Vector3f \<Rightarrow> real" where
  "vnorm a = sqrt (squaredNorm a)"

definition normalized :: "Vector3f \<Rightarrow> Vector3f" where
  "normalized a = smul (1 / vnorm a) a"

definition sqr :: "real \<Rightarrow> real" where
  "sqr a = a * a"

definition cube :: "real \<Rightarrow> real" where
  "cube a = a * a * a"

record Box3f =
  bmin :: Vector3f
  bmax :: Vector3f

definition extents :: "Box3f \<Rightarrow> Vector3f" where
  "extents b = vsub (bmax b) (bmin b)"

text \<open>The centre of a box, used only to say which way a normal points.\<close>

definition centre :: "Box3f \<Rightarrow> Vector3f" where
  "centre b = smul (1 / 2) (vadd (bmin b) (bmax b))"

definition inward :: "Box3f \<Rightarrow> Vector3f \<Rightarrow> Vector3f \<Rightarrow> bool" where
  "inward b p n \<longleftrightarrow> 0 < dot n (vsub (centre b) p)"

definition outward :: "Box3f \<Rightarrow> Vector3f \<Rightarrow> Vector3f \<Rightarrow> bool" where
  "outward b p n \<longleftrightarrow> dot n (vsub (centre b) p) < 0"


section \<open>Boundary particles of a box (geometry/ParticleGenerator.cpp)\<close>

record Result =
  positions :: "Vector3f list"
  normals :: "Vector3f list"

text \<open>
  \<open>generateSurfaceParticles(box, particleRadius)\<close> appends one particle per call of its
  local \<open>addParticle(x, y, z, n)\<close>. The model lists those calls in the order the loops
  make them, one list per loop nest, and then applies \<open>addParticle\<close> to each call:
  the position is \<open>origin + (x, y, z) * d\<close> and the stored normal is \<open>n * normalScale\<close>
  with \<open>normalScale = -1\<close>.
\<close>

type_synonym call = "(int \<times> int \<times> int) \<times> Vector3f"

text \<open>\<open>for (int x = 1; x < n; ++x)\<close>\<close>

definition interior :: "int \<Rightarrow> int list" where
  "interior n = [1..n - 1]"

definition xy_planes :: "int \<Rightarrow> int \<Rightarrow> int \<Rightarrow> call list" where
  "xy_planes nx ny nz =
     concat (map (\<lambda>x. concat (map (\<lambda>y.
       [((x, y, 0), (0, 0, 1)), ((x, y, nz), (0, 0, -1))]) (interior ny))) (interior nx))"

definition xz_planes :: "int \<Rightarrow> int \<Rightarrow> int \<Rightarrow> call list" where
  "xz_planes nx ny nz =
     concat (map (\<lambda>x. concat (map (\<lambda>z.
       [((x, 0, z), (0, 1, 0)), ((x, ny, z), (0, -1, 0))]) (interior nz))) (interior nx))"

definition yz_planes :: "int \<Rightarrow> int \<Rightarrow> int \<Rightarrow> call list" where
  "yz_planes nx ny nz =
     concat (map (\<lambda>y. concat (map (\<lambda>z.
       [((0, y, z), (1, 0, 0)), ((nx, y, z), (-1, 0, 0))]) (interior nz))) (interior ny))"

definition x_borders :: "int \<Rightarrow> int \<Rightarrow> int \<Rightarrow> call list" where
  "x_borders nx ny nz =
     concat (map (\<lambda>x.
       [((x, 0, 0), normalized (0, 1, 1)), ((x, ny, 0), normalized (0, -1, 1)),
        ((x, 0, nz), normalized (0, 1, -1)), ((x, ny, nz), normalized (0, -1, -1))])
       (interior nx))"

definition y_borders :: "int \<Rightarrow> int \<Rightarrow> int \<Rightarrow> call list" where
  "y_borders nx ny nz =
     concat (map (\<lambda>y.
       [((0, y, 0), normalized (1, 0, 1)), ((nx, y, 0), normalized (-1, 0, 1)),
        ((0, y, nz), normalized (1, 0, -1)), ((nx, y, nz), normalized (-1, 0, -1))])
       (interior ny))"

definition z_borders :: "int \<Rightarrow> int \<Rightarrow> int \<Rightarrow> call list" where
  "z_borders nx ny nz =
     concat (map (\<lambda>z.
       [((0, 0, z), normalized (1, 1, 0)), ((nx, 0, z), normalized (-1, 1, 0)),
        ((0, ny, z), normalized (1, -1, 0)), ((nx, ny, z), normalized (-1, -1, 0))])
       (interior nz))"

text \<open>
  \<open>for (int c = 0; c < 8; ++c)\<close> with \<open>x = c & 1\<close>, \<open>y = (c >> 1) & 1\<close>,
  \<open>z = (c >> 2) & 1\<close>; a set bit selects index 0 and the component \<open>+1\<close>.
\<close>

definition corner :: "int \<Rightarrow> int \<Rightarrow> int \<Rightarrow> nat \<Rightarrow> call" where
  "corner nx ny nz c =
     (let x = odd c; y = odd (c div 2); z = odd (c div 4)
      in ((if x then 0 else nx, if y then 0 else ny, if z then 0 else nz),
          normalized (if x then 1 else -1, if y then 1 else -1, if z then 1 else -1)))"

definition corners :: "int \<Rightarrow> int \<Rightarrow> int \<Rightarrow> call list" where
  "corners nx ny nz = map (corner nx ny nz) [0..<8]"

definition box_calls :: "int \<Rightarrow> int \<Rightarrow> int \<Rightarrow> call list" where
  "box_calls nx ny nz =
     xy_planes nx ny nz @ xz_planes nx ny nz @ yz_planes nx ny nz @
     x_borders nx ny nz @ y_borders nx ny nz @ z_borders nx ny nz @ corners nx ny nz"

definition normalScale :: real where
  "normalScale = -1"

definition lattice :: "int \<times> int \<times> int \<Rightarrow> Vector3f" where
  "lattice c = (real_of_int (fst c), real_of_int (fst (snd c)), real_of_int (snd (snd c)))"

definition particle_position :: "Vector3f \<Rightarrow> Vector3f \<Rightarrow> call \<Rightarrow> Vector3f" where
  "particle_position origin d c = vadd origin (cwiseProduct (lattice (fst c)) d)"

definition particle_normal :: "call \<Rightarrow> Vector3f" where
  "particle_normal c = smul normalScale (snd c)"

definition box_counts :: "Box3f \<Rightarrow> real \<Rightarrow> int \<times> int \<times> int" where
  "box_counts box particleRadius =
     (\<lceil>vx (extents box) / (2 * particleRadius)\<rceil>,
      \<lceil>vy (extents box) / (2 * particleRadius)\<rceil>,
      \<lceil>vz (extents box) / (2 * particleRadius)\<rceil>)"

definition box_step :: "Box3f \<Rightarrow> real \<Rightarrow> Vector3f" where
  "box_step box particleRadius = cwiseQuotient (extents box) (lattice (box_counts box particleRadius))"

definition generateSurfaceParticles :: "Box3f \<Rightarrow> real \<Rightarrow> Result" where
  "generateSurfaceParticles box particleRadius =
     (let origin = bmin box;
          (nx, ny, nz) = box_counts box particleRadius;
          d = box_step box particleRadius;
          cs = box_calls nx ny nz
      in \<lparr> positions = map (particle_position origin d) cs,
           normals = map particle_normal cs \<rparr>)"

text \<open>
  The inward normals of the faces of the box that contain a lattice point, in the order
  x-min, x-max, y-min, y-max, z-min, z-max, and their sum. These follow the words of the
  specification and are compared with the normals the loops pass to \<open>addParticle\<close>.
\<close>

definition incident_faces :: "int \<Rightarrow> int \<Rightarrow> int \<Rightarrow> int \<times> int \<times> int \<Rightarrow> Vector3f list" where
  "incident_faces nx ny nz c =
     (if fst c = 0 then [(1, 0, 0)] else []) @
     (if fst c = nx then [(-1, 0, 0)] else []) @
     (if fst (snd c) = 0 then [(0, 1, 0)] else []) @
     (if fst (snd c) = ny then [(0, -1, 0)] else []) @
     (if snd (snd c) = 0 then [(0, 0, 1)] else []) @
     (if snd (snd c) = nz then [(0, 0, -1)] else [])"

definition vsum :: "Vector3f list \<Rightarrow> Vector3f" where
  "vsum vs = foldr vadd vs vzero"

definition unit_box :: Box3f where
  "unit_box = \<lparr> bmin = (0, 0, 0), bmax = (1, 1, 1) \<rparr>"

text \<open>
  What the generator is compared with at one lattice point: the number of faces the point
  lies on, and the normalised sum of their inward normals scaled by \<open>normalScale\<close>.
\<close>

definition expected_normal :: "int \<Rightarrow> int \<Rightarrow> int \<Rightarrow> int \<times> int \<times> int \<Rightarrow> Vector3f" where
  "expected_normal nx ny nz c = smul normalScale (normalized (vsum (incident_faces nx ny nz c)))"

definition matches :: "int \<Rightarrow> int \<Rightarrow> int \<Rightarrow> nat \<Rightarrow> call \<Rightarrow> bool" where
  "matches nx ny nz k c \<longleftrightarrow>
     length (incident_faces nx ny nz (fst c)) = k \<and>
     particle_normal c = expected_normal nx ny nz (fst c)"

definition positive_extents :: "Box3f \<Rightarrow> bool" where
  "positive_extents b \<longleftrightarrow>
     vx (bmin b) < vx (bmax b) \<and> vy (bmin b) < vy (bmax b) \<and> vz (bmin b) < vz (bmax b)"

text \<open>One axis of the sum of the inward normals at a lattice index.\<close>

definition inc :: "int \<Rightarrow> int \<Rightarrow> real" where
  "inc n i = (if i = 0 then 1 else if i = n then -1 else 0)"


section \<open>Seeding a mesh surface (geometry/ParticleGenerator.cpp)\<close>

text \<open>
  \<open>pcg32\<close> is an external library. The state of a generator is modelled by the sequence
  of the floats its coming calls of \<open>nextFloat()\<close> return; each of them lies in [0, 1).
\<close>

type_synonym pcg32 = "nat \<Rightarrow> real"

definition nextFloat :: "pcg32 \<Rightarrow> real \<times> pcg32" where
  "nextFloat rng = (rng 0, \<lambda>k. rng (Suc k))"

definition unit_draws :: "pcg32 \<Rightarrow> bool" where
  "unit_draws rng \<longleftrightarrow> (\<forall>k. 0 \<le> rng k \<and> rng k < 1)"

text \<open>
  A mesh as the generator reads it: the columns of \<open>vertices()\<close> and the columns of
  \<open>triangles()\<close>, each a triple of vertex indices.
\<close>

record Mesh =
  vertices :: "Vector3f list"
  triangles :: "(nat \<times> nat \<times> nat) list"

text \<open>The variables the seeding loop updates: the generator, the points and the area.\<close>

record seeding =
  rng :: pcg32
  points :: "Vector3f list"
  totalArea :: real

text \<open>
  The local \<open>samplePoint\<close>: it draws \<open>s\<close>, then \<open>t\<close>, and appends
  \<open>p0 + e0 * t * ss + e1 * (1 - ss)\<close> with \<open>ss = sqrt(s)\<close>.
\<close>

definition samplePoint :: "Vector3f \<Rightarrow> Vector3f \<Rightarrow> Vector3f \<Rightarrow> seeding \<Rightarrow> seeding" where
  "samplePoint p0 e0 e1 st =
     (let (s, r1) = nextFloat (rng st);
          (t, r2) = nextFloat r1;
          ss = sqrt s
      in st\<lparr> rng := r2,
              points := points st @ [vadd (vadd p0 (smul ss (smul t e0))) (smul (1 - ss) e1)] \<rparr>)"

text \<open>
  The body of the loop over the triangles: \<open>ni = int(floor(n))\<close> calls of \<open>samplePoint\<close>,
  then one more draw and one more call if that draw is below \<open>n\<close>.
\<close>

definition seed_triangle :: "real \<Rightarrow> Mesh \<Rightarrow> nat \<times> nat \<times> nat \<Rightarrow> seeding \<Rightarrow> seeding" where
  "seed_triangle density mesh tri st =
     (let p0 = vertices mesh ! fst tri;
          p1 = vertices mesh ! fst (snd tri);
          p2 = vertices mesh ! snd (snd tri);
          e0 = vsub p1 p0;
          e1 = vsub p2 p0;
          area = (1 / 2) * \<bar>vnorm (cross e0 e1)\<bar>;
          st1 = st\<lparr> totalArea := totalArea st + area \<rparr>;
          n = density * area;
          ni = \<lfloor>n\<rfloor>;
          st2 = (samplePoint p0 e0 e1 ^^ nat ni) st1;
          (u, r) = nextFloat (rng st2);
          st3 = st2\<lparr> rng := r \<rparr>
      in if u < n then samplePoint p0 e0 e1 st3 else st3)"

definition surface_density :: "real \<Rightarrow> real" where
  "surface_density particleRadius = 1 / (pi * sqr particleRadius)"

text \<open>
  The first stage of \<open>generateSurfaceParticles(mesh, particleRadius, cells)\<close>, from the
  default-constructed generator \<open>rng0\<close> to the end of the loop over the triangles. The
  later stages (relaxation, projection onto the surface, normals) read the signed distance
  field of SDF.h and VoxelGrid.h, which are not among the sources.
\<close>

definition seed_mesh :: "Mesh \<Rightarrow> real \<Rightarrow> pcg32 \<Rightarrow> seeding" where
  "seed_mesh mesh particleRadius rng0 =
     fold (seed_triangle (surface_density particleRadius) mesh) (triangles mesh)
       \<lparr> rng = rng0, points = [], totalArea = 0 \<rparr>"

text \<open>
  The number of samples the specification gives a triangle whose expected count is \<open>n\<close>
  when the draw after the deterministic samples is \<open>u\<close>: the floor of \<open>n\<close>, and one
  more exactly when \<open>u\<close> is below the fractional part of \<open>n\<close>.
\<close>

definition specified_count :: "real \<Rightarrow> real \<Rightarrow> nat" where
  "specified_count n u = nat \<lfloor>n\<rfloor> + (if u < frac n then 1 else 0)"

text \<open>A mesh of one right triangle with legs 4 and 2, and a generator that always draws 0.9.\<close>

definition one_triangle :: Mesh where
  "one_triangle = \<lparr> vertices = [(0, 0, 0), (4, 0, 0), (0, 2, 0)], triangles = [(0, 1, 2)] \<rparr>"

definition draws_09 :: pcg32 where
  "draws_09 = (\<lambda>k. 9 / 10)"


section \<open>The simulator (sim/SPH.h)\<close>

subsection \<open>Collaborators that are not among the sources\<close>

text \<open>
  Kernel.h is not among the sources. A kernel is taken as a parameter: the record holds the
  five constants and the five functions the simulator reads from \<open>_kernel\<close>.
\<close>

record Kernel =
  poly6Constant :: real
  poly6GradConstant :: real
  spikyGradConstant :: real
  viscosityLaplaceConstant :: real
  surfaceTensionConstant :: real
  poly6 :: "real \<Rightarrow> real"
  poly6Grad :: "Vector3f \<Rightarrow> real \<Rightarrow> Vector3f"
  spikyGrad :: "Vector3f \<Rightarrow> real \<Rightarrow> Vector3f"
  viscosityLaplace :: "real \<Rightarrow> real"
  surfaceTension :: "real \<Rightarrow> real"

text \<open>
  Modelled from the spec: \<open>Kernel::init(h)\<close> of Kernel.h, which is not among the sources.
  The polynomials and constants are those of section 4.A of the specification, each kernel
  returning 0 outside \<open>[0, h]\<close>.
\<close>

definition kernel_init :: "real \<Rightarrow> Kernel" where
  "kernel_init h =
     \<lparr> poly6Constant = 315 / (64 * pi * h ^ 9),
       poly6GradConstant = - 945 / (32 * pi * h ^ 9),
       spikyGradConstant = - 45 / (pi * h ^ 6),
       viscosityLaplaceConstant = 45 / (pi * h ^ 6),
       surfaceTensionConstant = 32 / (pi * h ^ 9),
       poly6 = (\<lambda>r2. if 0 \<le> r2 \<and> r2 \<le> h * h then (h * h - r2) ^ 3 else 0),
       poly6Grad = (\<lambda>r r2. if 0 \<le> r2 \<and> r2 \<le> h * h then smul ((h * h - r2) ^ 2) r else vzero),
       spikyGrad = (\<lambda>r rn. if 0 \<le> rn \<and> rn \<le> h then smul ((h - rn) ^ 2) (smul (1 / rn) r) else vzero),
       viscosityLaplace = (\<lambda>rn. if 0 \<le> rn \<and> rn \<le> h then h - rn else 0),
       surfaceTension = (\<lambda>rn. if 0 \<le> rn \<and> rn \<le> h / 2 then 2 * (h - rn) ^ 3 * rn ^ 3 - h ^ 6 / 64
                             else if h / 2 < rn \<and> rn \<le> h then 2 * (h - rn) ^ 3 * rn ^ 3 - h ^ 6 / 64
                             else 0) \<rparr>"

text \<open>
  Grid.h is not among the sources. A grid is taken as a parameter: a state of any type
  \<open>'g\<close> and the three operations the simulator calls. \<open>glookup g p radius\<close> lists the
  indices \<open>lookup\<close> passes to its callback, in order; \<open>gupdate g xs\<close> gives the grid
  after \<open>update\<close> and the pairs on which \<open>update\<close> calls its swap callback, in order.
\<close>

record 'g GridOps =
  ginit :: "Box3f \<Rightarrow> real \<Rightarrow> 'g"
  glookup :: "'g \<Rightarrow> Vector3f \<Rightarrow> real \<Rightarrow> nat list"
  gupdate :: "'g \<Rightarrow> Vector3f list \<Rightarrow> 'g \<times> (nat \<times> nat) list"

text \<open>
  The scene as the constructor reads it: the three optional settings, the world bounds and
  the liquid boxes and spheres. Meshes are loaded from files by ObjReader and are left out.
\<close>

record Settings =
  set_particleRadius :: "real option"
  set_restDensity :: "real option"
  set_gravity :: "Vector3f option"

record Scene =
  settings :: Settings
  world_bounds :: Box3f
  boxes :: "Box3f list"
  spheres :: "(Vector3f \<times> real) list"

definition getOr :: "'a option \<Rightarrow> 'a \<Rightarrow> 'a" where
  "getOr v d = (case v of None \<Rightarrow> d | Some a \<Rightarrow> a)"

subsection \<open>State\<close>

text \<open>
  The members of \<open>class SPH\<close>; the members of the anonymous struct \<open>wcsph\<close> carry the
  prefix \<open>wcsph_\<close>, and \<open>_t\<close> is \<open>sim_t\<close>. \<open>_boundaryGrid\<close> is never used and is
  left out.
\<close>

record 'g SPH =
  particleRadius :: real
  particleRadius2 :: real
  particleDiameter :: real
  kernelRadius :: real
  kernelRadius2 :: real
  kernelSupportParticles :: int
  restDensity :: real
  particleMass :: real
  particleMass2 :: real
  maxTimestep :: real
  gravity :: Vector3f
  wcsph_gamma :: real
  wcsph_cs :: real
  wcsph_B :: real
  wcsph_viscosity :: real
  wcsph_dt :: real
  kernel :: Kernel
  bounds :: Box3f
  fluidPositions :: "Vector3f list"
  fluidVelocities :: "Vector3f list"
  fluidNormals :: "Vector3f list"
  fluidForces :: "Vector3f list"
  fluidDensities :: "real list"
  fluidPressures :: "real list"
  fluidGrid :: 'g
  boundaryPositions :: "Vector3f list"
  boundaryNormals :: "Vector3f list"
  sim_t :: real

subsection \<open>Construction\<close>

text \<open>\<open>for (int x = min; x <= max; ++x)\<close>\<close>

definition voxelizeBox :: "real \<Rightarrow> Box3f \<Rightarrow> Vector3f list" where
  "voxelizeBox d box =
     concat (map (\<lambda>z. concat (map (\<lambda>y. map (\<lambda>x.
         (real_of_int x * d, real_of_int y * d, real_of_int z * d))
       [\<lceil>vx (bmin box) / d\<rceil> .. \<lfloor>vx (bmax box) / d\<rfloor>])
       [\<lceil>vy (bmin box) / d\<rceil> .. \<lfloor>vy (bmax box) / d\<rfloor>]))
       [\<lceil>vz (bmin box) / d\<rceil> .. \<lfloor>vz (bmax box) / d\<rfloor>])"

definition voxelizeSphere :: "real \<Rightarrow> Vector3f \<times> real \<Rightarrow> Vector3f list" where
  "voxelizeSphere d s =
     (let pos = fst s; radius = snd s; r2 = sqr radius
      in concat (map (\<lambda>z. concat (map (\<lambda>y. concat (map (\<lambda>x.
           (let p = (real_of_int x * d, real_of_int y * d, real_of_int z * d)
            in if squaredNorm (vsub p pos) \<le> r2 then [p] else []))
         [\<lceil>(vx pos - radius) / d\<rceil> .. \<lfloor>(vx pos + radius) / d\<rfloor>]))
         [\<lceil>(vy pos - radius) / d\<rceil> .. \<lfloor>(vy pos + radius) / d\<rfloor>]))
         [\<lceil>(vz pos - radius) / d\<rceil> .. \<lfloor>(vz pos + radius) / d\<rfloor>]))"

text \<open>
  The constructor \<open>SPH(scene)\<close>. \<open>uninit\<close> stands for the value \<open>_particleRadius2\<close>
  holds before line 44 squares it. The call of \<open>generateSurfaceParticles\<close> passes a third
  argument that the definition among the sources does not take; the two-argument
  definition is used. The vectors resized at the end are filled with zeros.
\<close>

definition SPH_init :: "'g GridOps \<Rightarrow> real \<Rightarrow> Scene \<Rightarrow> 'g SPH" where
  "SPH_init ops uninit scene =
     (let pr = getOr (set_particleRadius (settings scene)) (1 / 100);
          pd = 2 * pr;
          h = 4 * pr;
          rho0 = getOr (set_restDensity (settings scene)) 1000;
          m = rho0 / cube (1 / pd);
          g = getOr (set_gravity (settings scene)) (0, - 981 / 100, 0);
          gamma = 7;
          cs = 10;
          viscosity = 5 / 1000;
          fluid = concat (map (voxelizeBox pd) (boxes scene))
                  @ concat (map (voxelizeSphere pd) (spheres scene));
          boundary = generateSurfaceParticles (world_bounds scene) pr;
          n = length fluid
      in \<lparr> particleRadius = pr,
           particleRadius2 = sqr uninit,
           particleDiameter = pd,
           kernelRadius = h,
           kernelRadius2 = sqr h,
           kernelSupportParticles = \<lceil>(4 / 3 * pi * cube h) / cube pd\<rceil>,
           restDensity = rho0,
           particleMass = m,
           particleMass2 = sqr m,
           maxTimestep = 1 / 1000,
           gravity = g,
           wcsph_gamma = gamma,
           wcsph_cs = cs,
           wcsph_B = rho0 * sqr cs / gamma,
           wcsph_viscosity = viscosity,
           wcsph_dt = min ((1 / 4) * h / (m * (981 / 100)))
                          ((4 / 10) * h / (cs * (1 + (6 / 10) * viscosity))),
           kernel = kernel_init h,
           bounds = world_bounds scene,
           fluidPositions = fluid,
           fluidVelocities = replicate n vzero,
           fluidNormals = replicate n vzero,
           fluidForces = replicate n vzero,
           fluidDensities = replicate n 0,
           fluidPressures = replicate n 0,
           fluidGrid = ginit ops (world_bounds scene) h,
           boundaryPositions = positions boundary,
           boundaryNormals = normals boundary,
           sim_t = 0 \<rparr>)"

text \<open>
  The maximal timestep in the words of the specification: the smaller of the two
  CFL terms, with the norm of the gravity vector, capped at 1/1000.
\<close>

definition specified_max_timestep :: "'g SPH \<Rightarrow> real" where
  "specified_max_timestep st =
     min (min ((1 / 4) * kernelRadius st / (particleMass st * vnorm (gravity st)))
              ((4 / 10) * kernelRadius st / (wcsph_cs st * (1 + (6 / 10) * wcsph_viscosity st))))
         (1 / 1000)"


subsection \<open>The stages of a step\<close>

text \<open>\<open>iterate(count, func)\<close>, the serial branch: \<open>func(i)\<close> for \<open>i = 0, ..., count - 1\<close>.\<close>

definition iterate :: "nat \<Rightarrow> (nat \<Rightarrow> 's \<Rightarrow> 's) \<Rightarrow> 's \<Rightarrow> 's" where
  "iterate count func st = fold func [0..<count] st"

text \<open>\<open>std::swap(xs[i], xs[j])\<close>\<close>

definition swap_entries :: "nat \<Rightarrow> nat \<Rightarrow> 'a list \<Rightarrow> 'a list" where
  "swap_entries i j xs = xs[i := xs ! j, j := xs ! i]"

definition grid_update :: "'g GridOps \<Rightarrow> 'g SPH \<Rightarrow> 'g SPH" where
  "grid_update ops st =
     (let (g, swaps) = gupdate ops (fluidGrid st) (fluidPositions st)
      in fold (\<lambda>(i, j) s. s\<lparr> fluidPositions := swap_entries i j (fluidPositions s),
                              fluidVelocities := swap_entries i j (fluidVelocities s) \<rparr>)
           swaps (st\<lparr> fluidGrid := g \<rparr>))"

text \<open>
  \<open>iterateNeighbours(grid, positions, p, func)\<close>: \<open>func(j, r, r2)\<close> for every candidate
  \<open>j\<close> of the grid with \<open>r2 < _kernelRadius2\<close>; \<open>func\<close> updates the value it captured.
\<close>

definition iterateNeighbours ::
  "'g GridOps \<Rightarrow> 'g SPH \<Rightarrow> Vector3f list \<Rightarrow> Vector3f \<Rightarrow> (nat \<Rightarrow> Vector3f \<Rightarrow> real \<Rightarrow> 'a \<Rightarrow> 'a) \<Rightarrow> 'a \<Rightarrow> 'a" where
  "iterateNeighbours ops st xs p func acc =
     fold (\<lambda>j a. let r = vsub p (xs ! j); r2 = squaredNorm r
                  in if r2 < kernelRadius2 st then func j r r2 a else a)
       (glookup ops (fluidGrid st) p (kernelRadius st)) acc"

definition density_at :: "'g GridOps \<Rightarrow> nat \<Rightarrow> 'g SPH \<Rightarrow> 'g SPH" where
  "density_at ops i st =
     (let density0 = iterateNeighbours ops st (fluidPositions st) (fluidPositions st ! i)
                       (\<lambda>j r r2 d. d + poly6 (kernel st) r2) 0;
          density = density0 * (particleMass st * poly6Constant (kernel st));
          t = density / restDensity st;
          pressure = wcsph_B st * ((t * t) * (t * t) * (t * t) * t - 1)
      in st\<lparr> fluidDensities := (fluidDensities st)[i := density],
              fluidPressures := (fluidPressures st)[i := pressure] \<rparr>)"

definition computeDensity :: "'g GridOps \<Rightarrow> 'g SPH \<Rightarrow> 'g SPH" where
  "computeDensity ops st = iterate (length (fluidPositions st)) (density_at ops) st"

definition normal_at :: "'g GridOps \<Rightarrow> nat \<Rightarrow> 'g SPH \<Rightarrow> 'g SPH" where
  "normal_at ops i st =
     (let normal0 = iterateNeighbours ops st (fluidPositions st) (fluidPositions st ! i)
                      (\<lambda>j r r2 n. vadd n (smul (1 / (fluidDensities st ! j)) (poly6Grad (kernel st) r r2)))
                      vzero;
          normal = smul (kernelRadius st * particleMass st * poly6GradConstant (kernel st)) normal0
      in st\<lparr> fluidNormals := (fluidNormals st)[i := normal] \<rparr>)"

definition computeNormals :: "'g GridOps \<Rightarrow> 'g SPH \<Rightarrow> 'g SPH" where
  "computeNormals ops st = iterate (length (fluidPositions st)) (normal_at ops) st"

text \<open>
  The four vectors the callback of \<open>computeForces\<close> accumulates; \<open>force\<close> collects the
  pressure terms.
\<close>

record accumulators =
  force :: Vector3f
  forceViscosity :: Vector3f
  forceCohesion :: Vector3f
  forceCurvature :: Vector3f

definition no_force :: accumulators where
  "no_force = \<lparr> force = vzero, forceViscosity = vzero, forceCohesion = vzero, forceCurvature = vzero \<rparr>"

text \<open>
  The callback of \<open>computeForces\<close> for one candidate \<open>j\<close> of particle \<open>i\<close>, in three
  parts: \<open>pair_forces\<close> is the branch \<open>r2 < _kernelRadius2 && r2 > 0.00001f\<close>, with the
  references to the entries of \<open>i\<close> and \<open>j\<close> the callback takes at its start;
  \<open>nudge\<close> is the branch \<open>r2 == 0.f\<close>, which moves particle \<open>j\<close>; \<open>force_visit\<close> is
  the callback, which takes and returns the simulator state along with the accumulators.
\<close>

definition pair_forces :: "nat \<Rightarrow> nat \<Rightarrow> Vector3f \<Rightarrow> real \<Rightarrow> 'g SPH \<Rightarrow> accumulators \<Rightarrow> accumulators" where
  "pair_forces i j r r2 st a =
     (let v_i = fluidVelocities st ! i; v_j = fluidVelocities st ! j;
          n_i = fluidNormals st ! i; n_j = fluidNormals st ! j;
          density_i = fluidDensities st ! i; density_j = fluidDensities st ! j;
          pressure_i = fluidPressures st ! i; pressure_j = fluidPressures st ! j;
          rn = sqrt r2;
          correctionFactor = 2 * restDensity st / (density_i + density_j)
      in a\<lparr> force := vsub (force a)
                 (smul (particleMass2 st
                         * (pressure_i / sqr density_i + pressure_j / sqr density_j)
                         * spikyGradConstant (kernel st))
                    (spikyGrad (kernel st) r rn)),
             forceViscosity :=
               (if density_j > 1 / 10000
                then vsub (forceViscosity a)
                       (smul (viscosityLaplace (kernel st) rn / density_j) (vsub v_i v_j))
                else forceViscosity a),
             forceCohesion := vadd (forceCohesion a)
                 (smul (surfaceTension (kernel st) rn)
                    (smul correctionFactor (smul (1 / rn) r))),
             forceCurvature := vadd (forceCurvature a)
                 (smul correctionFactor (vsub n_i n_j)) \<rparr>)"

definition nudge :: "nat \<Rightarrow> 'g SPH \<Rightarrow> 'g SPH" where
  "nudge j st =
     st\<lparr> fluidPositions :=
           (fluidPositions st)[j := vadd (fluidPositions st ! j) (vconst (1 / 100000))] \<rparr>"

definition force_visit :: "nat \<Rightarrow> nat \<Rightarrow> accumulators \<times> 'g SPH \<Rightarrow> accumulators \<times> 'g SPH" where
  "force_visit i j acc_st =
     (let a = fst acc_st; st = snd acc_st
      in if i \<noteq> j then
           (let r = vsub (fluidPositions st ! i) (fluidPositions st ! j);
                r2 = squaredNorm r
            in if r2 < kernelRadius2 st \<and> r2 > 1 / 100000 then (pair_forces i j r r2 st a, st)
               else if r2 = 0 then (a, nudge j st)
               else (a, st))
         else (a, st))"

text \<open>The accumulators and the state after the grid's callback has seen every candidate.\<close>

definition accumulate :: "'g GridOps \<Rightarrow> nat \<Rightarrow> 'g SPH \<Rightarrow> accumulators \<times> 'g SPH" where
  "accumulate ops i st =
     fold (force_visit i) (glookup ops (fluidGrid st) (fluidPositions st ! i) (kernelRadius st))
       (no_force, st)"

definition force_at :: "'g GridOps \<Rightarrow> nat \<Rightarrow> 'g SPH \<Rightarrow> 'g SPH" where
  "force_at ops i st =
     (let (a, st1) = accumulate ops i st;
          viscosity = 5 / 10000;
          fViscosity = smul (viscosity * particleMass st1 * viscosityLaplaceConstant (kernel st1))
                         (forceViscosity a);
          tension = 2;
          fCohesion = smul (- tension * particleMass2 st1 * surfaceTensionConstant (kernel st1))
                        (forceCohesion a);
          fCurvature = smul (- tension * particleMass st1) (forceCurvature a);
          f1 = vadd (force a) (vadd (vadd fCohesion fCurvature) fViscosity);
          f2 = vadd f1 (smul (particleMass st1) (gravity st1))
      in st1\<lparr> fluidForces := (fluidForces st1)[i := f2] \<rparr>)"

definition computeForces :: "'g GridOps \<Rightarrow> 'g SPH \<Rightarrow> 'g SPH" where
  "computeForces ops st = iterate (length (fluidPositions st)) (force_at ops) st"

definition integrate_at :: "real \<Rightarrow> nat \<Rightarrow> 'g SPH \<Rightarrow> 'g SPH" where
  "integrate_at dt i st =
     (let invM = 1 / particleMass st;
          a = smul invM (fluidForces st ! i);
          st1 = st\<lparr> fluidVelocities :=
                      (fluidVelocities st)[i := vadd (fluidVelocities st ! i) (smul dt a)] \<rparr>
      in st1\<lparr> fluidPositions :=
                 (fluidPositions st1)[i := vadd (fluidPositions st1 ! i)
                                              (smul dt (fluidVelocities st1 ! i))] \<rparr>)"

definition integrate :: "real \<Rightarrow> 'g SPH \<Rightarrow> 'g SPH" where
  "integrate dt st = iterate (length (fluidPositions st)) (integrate_at dt) st"

text \<open>
  \<open>computeCollisions(handler)\<close>: six tests per particle, each reading the position anew
  (\<open>p\<close> is a reference into \<open>_fluidPositions\<close>, which the handler changes).
\<close>

type_synonym 'g handler = "nat \<Rightarrow> Vector3f \<Rightarrow> real \<Rightarrow> 'g SPH \<Rightarrow> 'g SPH"

definition collide_at :: "'g handler \<Rightarrow> nat \<Rightarrow> 'g SPH \<Rightarrow> 'g SPH" where
  "collide_at handler i st0 =
     (let st1 = (let p = fluidPositions st0 ! i in
                 if vx p < vx (bmin (bounds st0))
                 then handler i (1, 0, 0) (vx (bmin (bounds st0)) - vx p) st0 else st0);
          st2 = (let p = fluidPositions st1 ! i in
                 if vx p > vx (bmax (bounds st1))
                 then handler i (-1, 0, 0) (vx p - vx (bmax (bounds st1))) st1 else st1);
          st3 = (let p = fluidPositions st2 ! i in
                 if vy p < vy (bmin (bounds st2))
                 then handler i (0, 1, 0) (vy (bmin (bounds st2)) - vy p) st2 else st2);
          st4 = (let p = fluidPositions st3 ! i in
                 if vy p > vy (bmax (bounds st3))
                 then handler i (0, -1, 0) (vy p - vy (bmax (bounds st3))) st3 else st3);
          st5 = (let p = fluidPositions st4 ! i in
                 if vz p < vz (bmin (bounds st4))
                 then handler i (0, 0, 1) (vz (bmin (bounds st4)) - vz p) st4 else st4);
          st6 = (let p = fluidPositions st5 ! i in
                 if vz p > vz (bmax (bounds st5))
                 then handler i (0, 0, -1) (vz p - vz (bmax (bounds st5))) st5 else st5)
      in st6)"

definition computeCollisions :: "'g handler \<Rightarrow> 'g SPH \<Rightarrow> 'g SPH" where
  "computeCollisions handler st = iterate (length (fluidPositions st)) (collide_at handler) st"

text \<open>The handler \<open>update\<close> passes to \<open>computeCollisions\<close>.\<close>

definition collision_handler :: "'g handler" where
  "collision_handler i n d st =
     (let c = 1 / 2;
          st1 = st\<lparr> fluidPositions := (fluidPositions st)[i := vadd (fluidPositions st ! i) (smul d n)] \<rparr>
      in st1\<lparr> fluidVelocities :=
                 (fluidVelocities st1)[i := vsub (fluidVelocities st1 ! i)
                     (smul ((1 + c) * dot (fluidVelocities st1 ! i) n) n)] \<rparr>)"

definition update :: "'g GridOps \<Rightarrow> real \<Rightarrow> 'g SPH \<Rightarrow> 'g SPH" where
  "update ops dt st =
     (let s0 = st\<lparr> sim_t := sim_t st + dt \<rparr>;
          s1 = grid_update ops s0;
          s2 = computeDensity ops s1;
          s3 = computeNormals ops s2;
          s4 = computeForces ops s3;
          s5 = integrate dt s4
      in computeCollisions collision_handler s5)"

text \<open>The accessor \<open>maxTimestep()\<close>; the record field is the member \<open>_maxTimestep\<close>.\<close>

definition maxTimestep_of :: "'g SPH \<Rightarrow> real" where
  "maxTimestep_of st = maxTimestep st"


subsection \<open>Notions used to state the properties\<close>

text \<open>
  The neighbours of particle \<open>i\<close>: the particles, \<open>i\<close> itself among them, whose squared
  distance to it is below \<open>_kernelRadius2\<close>.
\<close>

definition neighbours :: "'g SPH \<Rightarrow> nat \<Rightarrow> nat set" where
  "neighbours st i =
     {j. j < length (fluidPositions st)
         \<and> squaredNorm (vsub (fluidPositions st ! i) (fluidPositions st ! j)) < kernelRadius2 st}"

text \<open>
  The contract of the grid towards the simulator, for the positions of a state: a lookup
  reports every index at most once, reports indices of particles only, and misses no
  particle whose squared distance to the query point is below \<open>_kernelRadius2\<close>.
\<close>

definition lookup_ok :: "'g GridOps \<Rightarrow> 'g SPH \<Rightarrow> bool" where
  "lookup_ok ops st \<longleftrightarrow>
     (\<forall>p. distinct (glookup ops (fluidGrid st) p (kernelRadius st))
        \<and> (\<forall>j \<in> set (glookup ops (fluidGrid st) p (kernelRadius st)). j < length (fluidPositions st))
        \<and> (\<forall>j < length (fluidPositions st).
              squaredNorm (vsub p (fluidPositions st ! j)) < kernelRadius2 st
              \<longrightarrow> j \<in> set (glookup ops (fluidGrid st) p (kernelRadius st))))"

text \<open>The per-particle vectors have one entry per fluid particle.\<close>

definition arrays_ok :: "'g SPH \<Rightarrow> bool" where
  "arrays_ok st \<longleftrightarrow>
     length (fluidVelocities st) = length (fluidPositions st)
     \<and> length (fluidNormals st) = length (fluidPositions st)
     \<and> length (fluidForces st) = length (fluidPositions st)
     \<and> length (fluidDensities st) = length (fluidPositions st)
     \<and> length (fluidPressures st) = length (fluidPositions st)"

definition in_bounds :: "Box3f \<Rightarrow> Vector3f \<Rightarrow> bool" where
  "in_bounds b p \<longleftrightarrow>
     vx (bmin b) \<le> vx p \<and> vx p \<le> vx (bmax b)
     \<and> vy (bmin b) \<le> vy p \<and> vy p \<le> vy (bmax b)
     \<and> vz (bmin b) \<le> vz p \<and> vz p \<le> vz (bmax b)"

definition valid_box :: "Box3f \<Rightarrow> bool" where
  "valid_box b \<longleftrightarrow>
     vx (bmin b) \<le> vx (bmax b) \<and> vy (bmin b) \<le> vy (bmax b) \<and> vz (bmin b) \<le> vz (bmax b)"

text \<open>
  The collision response in the words of the specification: the six faces of the world
  box, the inward unit normal of each, the test for a coordinate beyond a face, the
  penetration depth, and the response \<open>x += n * d\<close>, \<open>v -= (1 + c) * (v . n) * n\<close>
  with restitution \<open>c = 1/2\<close>.
\<close>

datatype face = XMin | XMax | YMin | YMax | ZMin | ZMax

definition faces :: "face list" where
  "faces = [XMin, XMax, YMin, YMax, ZMin, ZMax]"

fun face_normal :: "face \<Rightarrow> Vector3f" where
  "face_normal XMin = (1, 0, 0)"
| "face_normal XMax = (-1, 0, 0)"
| "face_normal YMin = (0, 1, 0)"
| "face_normal YMax = (0, -1, 0)"
| "face_normal ZMin = (0, 0, 1)"
| "face_normal ZMax = (0, 0, -1)"

fun coordinate :: "face \<Rightarrow> Vector3f \<Rightarrow> real" where
  "coordinate XMin p = vx p"
| "coordinate XMax p = vx p"
| "coordinate YMin p = vy p"
| "coordinate YMax p = vy p"
| "coordinate ZMin p = vz p"
| "coordinate ZMax p = vz p"

fun lower :: "face \<Rightarrow> bool" where
  "lower XMin = True"
| "lower XMax = False"
| "lower YMin = True"
| "lower YMax = False"
| "lower ZMin = True"
| "lower ZMax = False"

definition face_bound :: "Box3f \<Rightarrow> face \<Rightarrow> real" where
  "face_bound b f = coordinate f (if lower f then bmin b else bmax b)"

definition violated :: "Box3f \<Rightarrow> face \<Rightarrow> Vector3f \<Rightarrow> bool" where
  "violated b f p \<longleftrightarrow>
     (if lower f then coordinate f p < face_bound b f else coordinate f p > face_bound b f)"

definition penetration :: "Box3f \<Rightarrow> face \<Rightarrow> Vector3f \<Rightarrow> real" where
  "penetration b f p =
     (if lower f then face_bound b f - coordinate f p else coordinate f p - face_bound b f)"

definition restitution :: real where
  "restitution = 1 / 2"

definition respond :: "nat \<Rightarrow> face \<Rightarrow> 'g SPH \<Rightarrow> 'g SPH" where
  "respond i f st =
     (let p = fluidPositions st ! i;
          v = fluidVelocities st ! i;
          n = face_normal f;
          d = penetration (bounds st) f p
      in if violated (bounds st) f p
         then st\<lparr> fluidPositions := (fluidPositions st)[i := vadd p (smul d n)],
                  fluidVelocities := (fluidVelocities st)[i := vsub v (smul ((1 + restitution) * dot v n) n)] \<rparr>
         else st)"

text \<open>
  The pressure part of the force on particle \<open>i\<close>: the accumulator \<open>force\<close> when the
  callback of \<open>computeForces\<close> has seen every candidate, before cohesion, curvature,
  viscosity and gravity are added.
\<close>

definition pressure_force :: "'g GridOps \<Rightarrow> nat \<Rightarrow> 'g SPH \<Rightarrow> Vector3f" where
  "pressure_force ops i st = force (fst (accumulate ops i st))"

text \<open>The gradient of the spiky kernel changes sign with the separation vector.\<close>

definition odd_spiky :: "Kernel \<Rightarrow> bool" where
  "odd_spiky k \<longleftrightarrow> (\<forall>r rn. spikyGrad k (vneg r) rn = vneg (spikyGrad k r rn))"

subsection \<open>Concrete instances for evaluation\<close>

text \<open>
  A grid of a single cell: its state is the number of particles, an update reorders
  nothing, and a lookup reports every particle.
\<close>

definition one_cell :: "nat GridOps" where
  "one_cell = \<lparr> ginit = (\<lambda>b h. 0),
                glookup = (\<lambda>g p radius. [0..<g]),
                gupdate = (\<lambda>g xs. (length xs, [])) \<rparr>"

definition default_settings :: Settings where
  "default_settings = \<lparr> set_particleRadius = None, set_restDensity = None, set_gravity = None \<rparr>"

definition cube_box :: Box3f where
  "cube_box = \<lparr> bmin = (-1, -1, -1), bmax = (1, 1, 1) \<rparr>"

text \<open>A liquid box that is the single point at the origin; it voxelizes to one particle.\<close>

definition point_box :: Box3f where
  "point_box = \<lparr> bmin = (0, 0, 0), bmax = (0, 0, 0) \<rparr>"

text \<open>A liquid box that voxelizes to the two particles (0, 0, 0) and (0.02, 0, 0).\<close>

definition segment_box :: Box3f where
  "segment_box = \<lparr> bmin = (0, 0, 0), bmax = (2 / 100, 0, 0) \<rparr>"

text \<open>
  The state the constructor builds for one particle at rest at the origin, with the
  default settings and the world box \<open>b\<close>.
\<close>

definition one_particle_in :: "Box3f \<Rightarrow> nat SPH" where
  "one_particle_in b =
     SPH_init one_cell 0
       \<lparr> settings = default_settings, world_bounds = b, boxes = [point_box], spheres = [] \<rparr>"

text \<open>The particle in the world box \<open>[-1, 1]^3\<close>.\<close>

definition one_particle :: "nat SPH" where
  "one_particle = one_particle_in cube_box"

text \<open>Two particles 0.02 apart, inside the kernel radius 0.04.\<close>

definition two_particles :: "nat SPH" where
  "two_particles =
     SPH_init one_cell 0
       \<lparr> settings = default_settings, world_bounds = cube_box, boxes = [segment_box], spheres = [] \<rparr>"

text \<open>A scene with the particle radius 0.005 and no liquid.\<close>

definition fine_scene :: Scene where
  "fine_scene =
     \<lparr> settings = \<lparr> set_particleRadius = Some (5 / 1000), set_restDensity = None, set_gravity = None \<rparr>,
       world_bounds = cube_box, boxes = [], spheres = [] \<rparr>"

subsection \<open>Auxiliary notions for the proofs\<close>

text \<open>The position one response leaves, and the position the six responses leave.\<close>

definition clamp_face :: "Box3f \<Rightarrow> face \<Rightarrow> Vector3f \<Rightarrow> Vector3f" where
  "clamp_face b f p =
     (if violated b f p then vadd p (smul (penetration b f p) (face_normal f)) else p)"

definition project :: "Box3f \<Rightarrow> Vector3f \<Rightarrow> Vector3f" where
  "project b p = fold (clamp_face b) faces p"

text \<open>
  The particle of \<open>one_particle\<close> as it may stand before the collision stage: one unit
  below the floor of the world box, falling.
\<close>

definition fallen_particle :: "nat SPH" where
  "fallen_particle = one_particle\<lparr> fluidPositions := [(0, -2, 0)], fluidVelocities := [(0, -3, 0)] \<rparr>"

text \<open>
  The density and the pressure \<open>density_at\<close> stores for particle \<open>i\<close>, as functions of
  the state the density stage starts from.
\<close>

definition density_value :: "'g GridOps \<Rightarrow> 'g SPH \<Rightarrow> nat \<Rightarrow> real" where
  "density_value ops st i =
     iterateNeighbours ops st (fluidPositions st) (fluidPositions st ! i)
       (\<lambda>j r r2 d. d + poly6 (kernel st) r2) 0
     * (particleMass st * poly6Constant (kernel st))"

definition pressure_value :: "'g SPH \<Rightarrow> real \<Rightarrow> real" where
  "pressure_value st density =
     (let t = density / restDensity st
      in wcsph_B st * ((t * t) * (t * t) * (t * t) * t - 1))"

text \<open>The two particles when the force stage of their first step starts.\<close>

definition pair_ready :: "nat SPH" where
  "pair_ready = computeNormals one_cell (computeDensity one_cell (grid_update one_cell two_particles))"





section \<open>The collision stage in binary32\<close>

text \<open>
  The model above reads the \<open>float\<close>s of the program as reals. This section models the
  collision stage, the last stage of \<open>update\<close>, on the \<open>float\<close>s themselves: IEEE 754
  binary32, every operation rounded once. A value of the type is a finite number, an
  infinity or NaN; the sign of a zero is not kept (the collision stage compares, adds,
  subtracts and multiplies, and none of these tells \<open>-0\<close> from \<open>+0\<close>).
\<close>

datatype f32 = Fin (val: real) | PosInf | NegInf | NaN

text \<open>
  Rounding to the nearest binary32 number, ties to even: 24 significant bits, the unit in
  the last place \<open>2 ^ (e - 23)\<close> for \<open>2 ^ e \<le> |x| < 2 ^ (e + 1)\<close>, the exponent not
  below -126 (subnormal numbers are the multiples of \<open>2 ^ -149\<close>), and an infinity when
  the rounded magnitude reaches \<open>2 ^ 128\<close>.
\<close>

definition rne :: "real \<Rightarrow> int" where
  "rne y =
     (let f = \<lfloor>y\<rfloor>
      in if y - of_int f < 1 / 2 then f
         else if 1 / 2 < y - of_int f then f + 1
         else if even f then f else f + 1)"

definition expo :: "real \<Rightarrow> int" where
  "expo x = max \<lfloor>log 2 \<bar>x\<bar>\<rfloor> (- 126)"

definition ulp :: "real \<Rightarrow> real" where
  "ulp x = 2 powi (expo x - 23)"

definition round32 :: "real \<Rightarrow> f32" where
  "round32 x =
     (if x = 0 then Fin 0
      else let m = ulp x * of_int (rne (\<bar>x\<bar> / ulp x))
           in if 2 ^ 128 \<le> m then (if 0 < x then PosInf else NegInf)
              else Fin (sgn x * m))"

definition representable :: "real \<Rightarrow> bool" where
  "representable x \<longleftrightarrow> round32 x = Fin x"

text \<open>The operations of IEEE 754 on these values.\<close>

fun fneg :: "f32 \<Rightarrow> f32" where
  "fneg (Fin x) = Fin (- x)"
| "fneg PosInf = NegInf"
| "fneg NegInf = PosInf"
| "fneg NaN = NaN"

fun fadd :: "f32 \<Rightarrow> f32 \<Rightarrow> f32" where
  "fadd (Fin x) (Fin y) = round32 (x + y)"
| "fadd NaN b = NaN"
| "fadd a NaN = NaN"
| "fadd PosInf NegInf = NaN"
| "fadd NegInf PosInf = NaN"
| "fadd PosInf b = PosInf"
| "fadd NegInf b = NegInf"
| "fadd (Fin x) b = b"

definition fsub :: "f32 \<Rightarrow> f32 \<Rightarrow> f32" where
  "fsub a b = fadd a (fneg b)"

text \<open>The sign of a product with an infinity.\<close>

definition signed_inf :: "bool \<Rightarrow> f32" where
  "signed_inf positive = (if positive then PosInf else NegInf)"

fun fmul :: "f32 \<Rightarrow> f32 \<Rightarrow> f32" where
  "fmul (Fin x) (Fin y) = round32 (x * y)"
| "fmul NaN b = NaN"
| "fmul a NaN = NaN"
| "fmul (Fin x) PosInf = (if x = 0 then NaN else signed_inf (0 < x))"
| "fmul (Fin x) NegInf = (if x = 0 then NaN else signed_inf (x < 0))"
| "fmul PosInf (Fin y) = (if y = 0 then NaN else signed_inf (0 < y))"
| "fmul NegInf (Fin y) = (if y = 0 then NaN else signed_inf (y < 0))"
| "fmul PosInf PosInf = PosInf"
| "fmul PosInf NegInf = NegInf"
| "fmul NegInf PosInf = NegInf"
| "fmul NegInf NegInf = PosInf"

text \<open>\<open>a < b\<close>: false as soon as one side is NaN.\<close>

fun flt :: "f32 \<Rightarrow> f32 \<Rightarrow> bool" where
  "flt (Fin x) (Fin y) = (x < y)"
| "flt NaN b = False"
| "flt a NaN = False"
| "flt PosInf b = False"
| "flt a NegInf = False"
| "flt a PosInf = True"
| "flt NegInf b = True"

definition fgt :: "f32 \<Rightarrow> f32 \<Rightarrow> bool" where
  "fgt a b = flt b a"


text \<open>\<open>Vector3f\<close> over these values, with the operations the collision stage uses.\<close>

type_synonym fvec = "f32 \<times> f32 \<times> f32"

definition fx :: "fvec \<Rightarrow> f32" where "fx p = fst p"
definition fy :: "fvec \<Rightarrow> f32" where "fy p = fst (snd p)"
definition fz :: "fvec \<Rightarrow> f32" where "fz p = snd (snd p)"

definition fvadd :: "fvec \<Rightarrow> fvec \<Rightarrow> fvec" where
  "fvadd a b = (fadd (fx a) (fx b), fadd (fy a) (fy b), fadd (fz a) (fz b))"

definition fvsub :: "fvec \<Rightarrow> fvec \<Rightarrow> fvec" where
  "fvsub a b = (fsub (fx a) (fx b), fsub (fy a) (fy b), fsub (fz a) (fz b))"

definition fvscale :: "fvec \<Rightarrow> f32 \<Rightarrow> fvec" where
  "fvscale a s = (fmul (fx a) s, fmul (fy a) s, fmul (fz a) s)"

definition fdot :: "fvec \<Rightarrow> fvec \<Rightarrow> f32" where
  "fdot a b = fadd (fadd (fmul (fx a) (fx b)) (fmul (fy a) (fy b))) (fmul (fz a) (fz b))"

record FBox =
  fbmin :: fvec
  fbmax :: fvec

text \<open>The members of \<open>SPH\<close> that the collision stage reads or writes.\<close>

record fl_state =
  fl_bounds :: FBox
  fl_positions :: "fvec list"
  fl_velocities :: "fvec list"

type_synonym fl_handler = "nat \<Rightarrow> fvec \<Rightarrow> f32 \<Rightarrow> fl_state \<Rightarrow> fl_state"

text \<open>
  \<open>computeCollisions\<close> and the handler of \<open>update\<close>, operation by operation: \<open>n * d\<close>
  multiplies each component of \<open>n\<close> by \<open>d\<close>, \<open>(1 + c) * v.dot(n) * n\<close> is evaluated from the
  left, and the dot product is summed from the first component.
\<close>

definition fl_collide_at :: "fl_handler \<Rightarrow> nat \<Rightarrow> fl_state \<Rightarrow> fl_state" where
  "fl_collide_at handler i st0 =
     (let st1 = (let p = fl_positions st0 ! i in
                 if flt (fx p) (fx (fbmin (fl_bounds st0)))
                 then handler i (Fin 1, Fin 0, Fin 0) (fsub (fx (fbmin (fl_bounds st0))) (fx p)) st0
                 else st0);
          st2 = (let p = fl_positions st1 ! i in
                 if fgt (fx p) (fx (fbmax (fl_bounds st1)))
                 then handler i (Fin (- 1), Fin 0, Fin 0) (fsub (fx p) (fx (fbmax (fl_bounds st1)))) st1
                 else st1);
          st3 = (let p = fl_positions st2 ! i in
                 if flt (fy p) (fy (fbmin (fl_bounds st2)))
                 then handler i (Fin 0, Fin 1, Fin 0) (fsub (fy (fbmin (fl_bounds st2))) (fy p)) st2
                 else st2);
          st4 = (let p = fl_positions st3 ! i in
                 if fgt (fy p) (fy (fbmax (fl_bounds st3)))
                 then handler i (Fin 0, Fin (- 1), Fin 0) (fsub (fy p) (fy (fbmax (fl_bounds st3)))) st3
                 else st3);
          st5 = (let p = fl_positions st4 ! i in
                 if flt (fz p) (fz (fbmin (fl_bounds st4)))
                 then handler i (Fin 0, Fin 0, Fin 1) (fsub (fz (fbmin (fl_bounds st4))) (fz p)) st4
                 else st4);
          st6 = (let p = fl_positions st5 ! i in
                 if fgt (fz p) (fz (fbmax (fl_bounds st5)))
                 then handler i (Fin 0, Fin 0, Fin (- 1)) (fsub (fz p) (fz (fbmax (fl_bounds st5)))) st5
                 else st5)
      in st6)"

definition fl_computeCollisions :: "fl_handler \<Rightarrow> fl_state \<Rightarrow> fl_state" where
  "fl_computeCollisions handler st =
     iterate (length (fl_positions st)) (fl_collide_at handler) st"

definition fl_collision_handler :: fl_handler where
  "fl_collision_handler i n d st =
     (let c = Fin (1 / 2);
          st1 = st\<lparr> fl_positions :=
                      (fl_positions st)[i := fvadd (fl_positions st ! i) (fvscale n d)] \<rparr>
      in st1\<lparr> fl_velocities :=
                 (fl_velocities st1)[i := fvsub (fl_velocities st1 ! i)
                     (fvscale n (fmul (fadd (Fin 1) c) (fdot (fl_velocities st1 ! i) n)))] \<rparr>)"

subsection \<open>Notions used to state the properties of the binary32 stage\<close>

text \<open>The six tests and responses of the collision stage on one position.\<close>

fun fl_face_normal :: "face \<Rightarrow> fvec" where
  "fl_face_normal XMin = (Fin 1, Fin 0, Fin 0)"
| "fl_face_normal XMax = (Fin (- 1), Fin 0, Fin 0)"
| "fl_face_normal YMin = (Fin 0, Fin 1, Fin 0)"
| "fl_face_normal YMax = (Fin 0, Fin (- 1), Fin 0)"
| "fl_face_normal ZMin = (Fin 0, Fin 0, Fin 1)"
| "fl_face_normal ZMax = (Fin 0, Fin 0, Fin (- 1))"

fun fl_coordinate :: "face \<Rightarrow> fvec \<Rightarrow> f32" where
  "fl_coordinate XMin p = fx p"
| "fl_coordinate XMax p = fx p"
| "fl_coordinate YMin p = fy p"
| "fl_coordinate YMax p = fy p"
| "fl_coordinate ZMin p = fz p"
| "fl_coordinate ZMax p = fz p"

definition fl_face_bound :: "FBox \<Rightarrow> face \<Rightarrow> f32" where
  "fl_face_bound b f = fl_coordinate f (if lower f then fbmin b else fbmax b)"

definition fl_violated :: "FBox \<Rightarrow> face \<Rightarrow> fvec \<Rightarrow> bool" where
  "fl_violated b f p \<longleftrightarrow>
     (if lower f then flt (fl_coordinate f p) (fl_face_bound b f)
      else fgt (fl_coordinate f p) (fl_face_bound b f))"

definition fl_penetration :: "FBox \<Rightarrow> face \<Rightarrow> fvec \<Rightarrow> f32" where
  "fl_penetration b f p =
     (if lower f then fsub (fl_face_bound b f) (fl_coordinate f p)
      else fsub (fl_coordinate f p) (fl_face_bound b f))"

definition fl_respond :: "nat \<Rightarrow> face \<Rightarrow> fl_state \<Rightarrow> fl_state" where
  "fl_respond i f st =
     (let p = fl_positions st ! i
      in if fl_violated (fl_bounds st) f p
         then fl_collision_handler i (fl_face_normal f) (fl_penetration (fl_bounds st) f p) st
         else st)"

definition fl_clamp_face :: "FBox \<Rightarrow> face \<Rightarrow> fvec \<Rightarrow> fvec" where
  "fl_clamp_face b f p =
     (if fl_violated b f p then fvadd p (fvscale (fl_face_normal f) (fl_penetration b f p))
      else p)"

definition fl_project :: "FBox \<Rightarrow> fvec \<Rightarrow> fvec" where
  "fl_project b p = fold (fl_clamp_face b) faces p"
















section \<open>Lemmas about vectors and the box generator\<close>


lemmas vec_defs = vx_def vy_def vz_def vadd_def vsub_def smul_def vneg_def dot_def
  cwiseProduct_def cwiseQuotient_def squaredNorm_def vzero_def

lemma squaredNorm_smul: "squaredNorm (smul s v) = s * s * squaredNorm v"
  by (simp add: vec_defs algebra_simps)

lemma vnorm_normalized: "0 < squaredNorm v \<Longrightarrow> vnorm (normalized v) = 1"
proof -
  assume pos: "0 < squaredNorm v"
  have "squaredNorm (normalized v) = (1 / vnorm v) * (1 / vnorm v) * squaredNorm v"
    by (simp add: normalized_def squaredNorm_smul)
  also have "\<dots> = squaredNorm v / (sqrt (squaredNorm v) * sqrt (squaredNorm v))"
    by (simp add: vnorm_def)
  also have "\<dots> = 1"
    using pos by simp
  finally show ?thesis
    by (simp add: vnorm_def)
qed

lemma vnorm_smul_neg: "vnorm (smul (-1) v) = vnorm v"
  by (simp add: vnorm_def squaredNorm_smul)

lemma dot_smul_left: "dot (smul s a) b = s * dot a b"
  by (simp add: vec_defs algebra_simps)

lemma normalized_axis:
  "normalized (1, 0, 0) = (1, 0, 0)" "normalized (-1, 0, 0) = (-1, 0, 0)"
  "normalized (0, 1, 0) = (0, 1, 0)" "normalized (0, -1, 0) = (0, -1, 0)"
  "normalized (0, 0, 1) = (0, 0, 1)" "normalized (0, 0, -1) = (0, 0, -1)"
  by (simp_all add: normalized_def vnorm_def vec_defs)

lemma in_interior: "x \<in> set (interior n) \<longleftrightarrow> 1 \<le> x \<and> x < n"
  by (auto simp: interior_def)

lemmas match_defs = in_interior matches_def expected_normal_def particle_normal_def
  incident_faces_def vsum_def vadd_def vzero_def vx_def vy_def vz_def

lemma xy_planes_matches:
  "1 \<le> nx \<Longrightarrow> 1 \<le> ny \<Longrightarrow> 1 \<le> nz \<Longrightarrow> c \<in> set (xy_planes nx ny nz) \<Longrightarrow> matches nx ny nz 1 c"
  by (auto simp: xy_planes_def match_defs normalized_axis)

lemma xz_planes_matches:
  "1 \<le> nx \<Longrightarrow> 1 \<le> ny \<Longrightarrow> 1 \<le> nz \<Longrightarrow> c \<in> set (xz_planes nx ny nz) \<Longrightarrow> matches nx ny nz 1 c"
  by (auto simp: xz_planes_def match_defs normalized_axis)

lemma yz_planes_matches:
  "1 \<le> nx \<Longrightarrow> 1 \<le> ny \<Longrightarrow> 1 \<le> nz \<Longrightarrow> c \<in> set (yz_planes nx ny nz) \<Longrightarrow> matches nx ny nz 1 c"
  by (auto simp: yz_planes_def match_defs normalized_axis)

lemma x_borders_matches:
  "1 \<le> nx \<Longrightarrow> 1 \<le> ny \<Longrightarrow> 1 \<le> nz \<Longrightarrow> c \<in> set (x_borders nx ny nz) \<Longrightarrow> matches nx ny nz 2 c"
  by (auto simp: x_borders_def match_defs)

lemma y_borders_matches:
  "1 \<le> nx \<Longrightarrow> 1 \<le> ny \<Longrightarrow> 1 \<le> nz \<Longrightarrow> c \<in> set (y_borders nx ny nz) \<Longrightarrow> matches nx ny nz 2 c"
  by (auto simp: y_borders_def match_defs)

lemma z_borders_matches:
  "1 \<le> nx \<Longrightarrow> 1 \<le> ny \<Longrightarrow> 1 \<le> nz \<Longrightarrow> c \<in> set (z_borders nx ny nz) \<Longrightarrow> matches nx ny nz 2 c"
  by (auto simp: z_borders_def match_defs)

lemma corner_matches:
  "1 \<le> nx \<Longrightarrow> 1 \<le> ny \<Longrightarrow> 1 \<le> nz \<Longrightarrow> matches nx ny nz 3 (corner nx ny nz k)"
  by (auto simp: corner_def Let_def match_defs)

lemma corners_matches:
  "1 \<le> nx \<Longrightarrow> 1 \<le> ny \<Longrightarrow> 1 \<le> nz \<Longrightarrow> c \<in> set (corners nx ny nz) \<Longrightarrow> matches nx ny nz 3 c"
  by (auto simp: corners_def corner_matches)

lemma box_calls_matches:
  assumes "1 \<le> nx" "1 \<le> ny" "1 \<le> nz" "c \<in> set (box_calls nx ny nz)"
  shows "\<exists>k\<in>{1, 2, 3}. matches nx ny nz k c"
  using assms xy_planes_matches [of nx ny nz c] xz_planes_matches [of nx ny nz c]
    yz_planes_matches [of nx ny nz c] x_borders_matches [of nx ny nz c]
    y_borders_matches [of nx ny nz c] z_borders_matches [of nx ny nz c]
    corners_matches [of nx ny nz c]
  by (auto simp: box_calls_def)

lemma vsum_incident:
  "1 \<le> nx \<Longrightarrow> 1 \<le> ny \<Longrightarrow> 1 \<le> nz \<Longrightarrow>
   vsum (incident_faces nx ny nz (x, y, z)) = (inc nx x, inc ny y, inc nz z)"
  by (simp add: incident_faces_def vsum_def vadd_def vzero_def vx_def vy_def vz_def inc_def)

lemma length_incident:
  "1 \<le> nx \<Longrightarrow> 1 \<le> ny \<Longrightarrow> 1 \<le> nz \<Longrightarrow>
   real (length (incident_faces nx ny nz (x, y, z))) = \<bar>inc nx x\<bar> + \<bar>inc ny y\<bar> + \<bar>inc nz z\<bar>"
  by (simp add: incident_faces_def inc_def)

lemma inc_sq: "inc n i * inc n i = \<bar>inc n i\<bar>"
  by (simp add: inc_def)

lemma inc_axis:
  assumes "1 \<le> n" "lo < hi"
  shows "inc n i * ((1 / 2) * (lo + hi) - (lo + real_of_int i * ((hi - lo) / real_of_int n)))
         = \<bar>inc n i\<bar> * ((hi - lo) / 2)"
  using assms by (simp add: inc_def field_simps)

lemma pos_comb:
  fixes a b c p q r :: real
  assumes "0 \<le> a" "0 \<le> b" "0 \<le> c" "1 \<le> a + b + c" "0 < p" "0 < q" "0 < r"
  shows "0 < a * p + b * q + c * r"
proof -
  have nn: "0 \<le> a * p" "0 \<le> b * q" "0 \<le> c * r"
    using assms by simp_all
  have "0 < a \<or> 0 < b \<or> 0 < c"
    using assms by linarith
  then have "0 < a * p \<or> 0 < b * q \<or> 0 < c * r"
    using assms by auto
  then show ?thesis
    using nn by linarith
qed

lemma expected_unit_outward:
  assumes n: "1 \<le> nx" "1 \<le> ny" "1 \<le> nz" and b: "positive_extents box"
    and k: "1 \<le> length (incident_faces nx ny nz c)"
  shows "vnorm (expected_normal nx ny nz c) = 1"
    and "outward box (vadd (bmin box) (cwiseProduct (lattice c)
           (cwiseQuotient (extents box) (lattice (nx, ny, nz))))) (expected_normal nx ny nz c)"
proof -
  obtain x y z where c: "c = (x, y, z)" by (cases c) auto
  define s where "s = vsum (incident_faces nx ny nz c)"
  have s: "s = (inc nx x, inc ny y, inc nz z)"
    using n by (simp add: s_def c vsum_incident)
  have len: "1 \<le> \<bar>inc nx x\<bar> + \<bar>inc ny y\<bar> + \<bar>inc nz z\<bar>"
    using k length_incident [OF n, of x y z] by (simp add: c)
  have sq: "squaredNorm s = \<bar>inc nx x\<bar> + \<bar>inc ny y\<bar> + \<bar>inc nz z\<bar>"
    by (simp add: s squaredNorm_def dot_def vx_def vy_def vz_def inc_sq)
  have pos: "0 < squaredNorm s" using len sq by simp
  show "vnorm (expected_normal nx ny nz c) = 1"
    using vnorm_normalized [OF pos]
    by (simp add: expected_normal_def normalScale_def vnorm_smul_neg s_def)
  obtain ax ay az bx "by" bz where bb: "bmin box = (ax, ay, az)" "bmax box = (bx, by, bz)"
    by (metis prod_cases3)
  have lt: "ax < bx" "ay < by" "az < bz"
    using b by (simp_all add: positive_extents_def bb vx_def vy_def vz_def)
  have e: "dot s (vsub (centre box) (vadd (bmin box) (cwiseProduct (lattice c)
           (cwiseQuotient (extents box) (lattice (nx, ny, nz))))))
        = inc nx x * ((1 / 2) * (ax + bx) - (ax + real_of_int x * ((bx - ax) / real_of_int nx)))
        + inc ny y * ((1 / 2) * (ay + by) - (ay + real_of_int y * ((by - ay) / real_of_int ny)))
        + inc nz z * ((1 / 2) * (az + bz) - (az + real_of_int z * ((bz - az) / real_of_int nz)))"
    by (simp add: s c bb centre_def extents_def lattice_def vec_defs)
  have d: "dot s (vsub (centre box) (vadd (bmin box) (cwiseProduct (lattice c)
           (cwiseQuotient (extents box) (lattice (nx, ny, nz))))))
        = \<bar>inc nx x\<bar> * ((bx - ax) / 2) + \<bar>inc ny y\<bar> * ((by - ay) / 2) + \<bar>inc nz z\<bar> * ((bz - az) / 2)"
    unfolding e inc_axis [OF n(1) lt(1)] inc_axis [OF n(2) lt(2)] inc_axis [OF n(3) lt(3)] ..
  have "0 < \<bar>inc nx x\<bar> * ((bx - ax) / 2) + \<bar>inc ny y\<bar> * ((by - ay) / 2) + \<bar>inc nz z\<bar> * ((bz - az) / 2)"
    using pos_comb [of "\<bar>inc nx x\<bar>" "\<bar>inc ny y\<bar>" "\<bar>inc nz z\<bar>" "(bx - ax) / 2" "(by - ay) / 2" "(bz - az) / 2"]
      len lt by simp
  then have dpos: "0 < dot s (vsub (centre box) (vadd (bmin box) (cwiseProduct (lattice c)
           (cwiseQuotient (extents box) (lattice (nx, ny, nz))))))"
    using d by simp
  have npos: "0 < 1 / vnorm s"
    using pos by (simp add: vnorm_def)
  show "outward box (vadd (bmin box) (cwiseProduct (lattice c)
           (cwiseQuotient (extents box) (lattice (nx, ny, nz))))) (expected_normal nx ny nz c)"
    unfolding outward_def expected_normal_def normalScale_def normalized_def s_def [symmetric]
      dot_smul_left
    using dpos npos by (simp add: zero_less_mult_iff)
qed

lemma box_counts_pos:
  assumes "0 < r" "positive_extents box"
  shows "1 \<le> fst (box_counts box r)" "1 \<le> fst (snd (box_counts box r))"
    "1 \<le> snd (snd (box_counts box r))"
  using assms
  by (simp_all add: box_counts_def positive_extents_def extents_def vsub_def vx_def vy_def vz_def
      ceiling_le_iff le_ceiling_iff less_ceiling_iff)


lemma length_interior: "length (interior n) = nat (n - 1)"
  by (simp add: interior_def)

lemma length_concat_const:
  "(\<And>x. x \<in> set xs \<Longrightarrow> length (f x) = k) \<Longrightarrow> length (concat (map f xs)) = length xs * k"
  by (induction xs) auto

lemma length_xy_planes: "length (xy_planes nx ny nz) = nat (nx - 1) * (nat (ny - 1) * 2)"
  by (simp add: xy_planes_def length_concat_const length_interior)

lemma length_xz_planes: "length (xz_planes nx ny nz) = nat (nx - 1) * (nat (nz - 1) * 2)"
  by (simp add: xz_planes_def length_concat_const length_interior)

lemma length_yz_planes: "length (yz_planes nx ny nz) = nat (ny - 1) * (nat (nz - 1) * 2)"
  by (simp add: yz_planes_def length_concat_const length_interior)

lemma length_x_borders: "length (x_borders nx ny nz) = nat (nx - 1) * 4"
  by (simp add: x_borders_def length_concat_const length_interior)

lemma length_y_borders: "length (y_borders nx ny nz) = nat (ny - 1) * 4"
  by (simp add: y_borders_def length_concat_const length_interior)

lemma length_z_borders: "length (z_borders nx ny nz) = nat (nz - 1) * 4"
  by (simp add: z_borders_def length_concat_const length_interior)

lemma length_corners: "length (corners nx ny nz) = 8"
  by (simp add: corners_def)

lemma unit_box_counts: "box_counts unit_box (1 / 20) = (10, 10, 10)"
  by (simp add: box_counts_def unit_box_def extents_def vsub_def vx_def vy_def vz_def)

lemma positions_split:
  "positions (generateSurfaceParticles box r) =
     map (particle_position (bmin box) (box_step box r))
       (case box_counts box r of (nx, ny, nz) \<Rightarrow> box_calls nx ny nz)"
  by (simp add: generateSurfaceParticles_def Let_def split: prod.splits)

section \<open>The box generator: normals and particle count\<close>

lemma positions_generate:
  "box_counts box r = (nx, ny, nz) \<Longrightarrow>
   positions (generateSurfaceParticles box r)
     = map (particle_position (bmin box) (box_step box r)) (box_calls nx ny nz)"
  by (simp add: generateSurfaceParticles_def Let_def)

lemma normals_generate:
  "box_counts box r = (nx, ny, nz) \<Longrightarrow>
   normals (generateSurfaceParticles box r) = map particle_normal (box_calls nx ny nz)"
  by (simp add: generateSurfaceParticles_def Let_def)

lemma quarter_counts: "box_counts unit_box (1 / 4) = (2, 2, 2)"
  by (simp add: box_counts_def unit_box_def extents_def vsub_def vx_def vy_def vz_def)

lemma unit_box_extents: "extents unit_box = (1, 1, 1)"
  by (simp add: unit_box_def extents_def vsub_def vx_def vy_def vz_def)

lemma quarter_step: "box_step unit_box (1 / 4) = (1 / 2, 1 / 2, 1 / 2)"
  by (simp add: box_step_def quarter_counts unit_box_extents lattice_def cwiseQuotient_def
      vx_def vy_def vz_def)

lemma quarter_calls_hd: "\<exists>cs. box_calls 2 2 2 = ((1, 1, 0), (0, 0, 1)) # cs"
  by (simp add: box_calls_def xy_planes_def interior_def)

text \<open>
  Claim C6, as stated: every boundary particle of the box generator carries an inward-pointing
  unit normal. It fails on the unit box with particle radius 1/4: the first particle emitted
  lies at (1/2, 1/2, 0) on the face z = 0 and carries the normal (0, 0, -1), which points
  away from the interior of the box.
\<close>

theorem box_normals_counterexample:
  "positions (generateSurfaceParticles unit_box (1 / 4)) ! 0 = (1 / 2, 1 / 2, 0)
   \<and> normals (generateSurfaceParticles unit_box (1 / 4)) ! 0 = (0, 0, -1)
   \<and> \<not> inward unit_box (positions (generateSurfaceParticles unit_box (1 / 4)) ! 0)
         (normals (generateSurfaceParticles unit_box (1 / 4)) ! 0)"
proof -
  obtain cs where cs: "box_calls 2 2 2 = ((1, 1, 0), (0, 0, 1)) # cs"
    using quarter_calls_hd by blast
  have p: "positions (generateSurfaceParticles unit_box (1 / 4)) ! 0 = (1 / 2, 1 / 2, 0)"
    unfolding positions_generate [OF quarter_counts] quarter_step cs
    by (simp add: particle_position_def lattice_def unit_box_def vx_def vy_def vz_def vadd_def
        cwiseProduct_def)
  have n: "normals (generateSurfaceParticles unit_box (1 / 4)) ! 0 = (0, 0, -1)"
    by (simp add: normals_generate [OF quarter_counts] cs particle_normal_def
        normalScale_def smul_def vx_def vy_def vz_def)
  show ?thesis
    unfolding p n by (simp add: inward_def centre_def unit_box_def vec_defs)
qed

text \<open>
  Claim C6, amended: for a box with positive extents and a positive particle radius, every
  boundary particle of the box generator carries an outward-pointing unit normal, namely the
  inward normal multiplied by \<open>normalScale = -1\<close>, where the inward normal is
  the axis-aligned face normal on face interiors (one incident face), the normalised sum of
  the two incident face normals on edge samples and the normalised sum of the three incident
  face normals on corner samples.
\<close>

theorem box_normals_outward:
  assumes r: "0 < r" and b: "positive_extents box" and cnt: "box_counts box r = (nx, ny, nz)"
  shows "length (normals (generateSurfaceParticles box r))
           = length (positions (generateSurfaceParticles box r))
     \<and> normals (generateSurfaceParticles box r) = map particle_normal (box_calls nx ny nz)
     \<and> (\<forall>c \<in> set (xy_planes nx ny nz @ xz_planes nx ny nz @ yz_planes nx ny nz).
           matches nx ny nz 1 c)
     \<and> (\<forall>c \<in> set (x_borders nx ny nz @ y_borders nx ny nz @ z_borders nx ny nz).
           matches nx ny nz 2 c)
     \<and> (\<forall>c \<in> set (corners nx ny nz). matches nx ny nz 3 c)
     \<and> (\<forall>k < length (positions (generateSurfaceParticles box r)).
           vnorm (normals (generateSurfaceParticles box r) ! k) = 1
           \<and> outward box (positions (generateSurfaceParticles box r) ! k)
                (normals (generateSurfaceParticles box r) ! k))"
proof -
  have n: "1 \<le> nx" "1 \<le> ny" "1 \<le> nz"
    using box_counts_pos [OF r b] by (simp_all add: cnt)
  have ps: "positions (generateSurfaceParticles box r)
      = map (particle_position (bmin box) (box_step box r)) (box_calls nx ny nz)"
    by (rule positions_generate [OF cnt])
  have ns: "normals (generateSurfaceParticles box r) = map particle_normal (box_calls nx ny nz)"
    by (rule normals_generate [OF cnt])
  have planes: "\<forall>c \<in> set (xy_planes nx ny nz @ xz_planes nx ny nz @ yz_planes nx ny nz).
      matches nx ny nz 1 c"
    using xy_planes_matches [OF n] xz_planes_matches [OF n] yz_planes_matches [OF n] by auto
  have borders: "\<forall>c \<in> set (x_borders nx ny nz @ y_borders nx ny nz @ z_borders nx ny nz).
      matches nx ny nz 2 c"
    using x_borders_matches [OF n] y_borders_matches [OF n] z_borders_matches [OF n] by auto
  have corners: "\<forall>c \<in> set (corners nx ny nz). matches nx ny nz 3 c"
    using corners_matches [OF n] by auto
  have each: "vnorm (normals (generateSurfaceParticles box r) ! k) = 1
           \<and> outward box (positions (generateSurfaceParticles box r) ! k)
                (normals (generateSurfaceParticles box r) ! k)"
    if k: "k < length (positions (generateSurfaceParticles box r))" for k
  proof -
    define c where "c = box_calls nx ny nz ! k"
    have kk: "k < length (box_calls nx ny nz)" using k by (simp add: ps)
    then have "c \<in> set (box_calls nx ny nz)" by (simp add: c_def)
    then obtain j where j: "j \<in> {1, 2, 3}" "matches nx ny nz j c"
      using box_calls_matches [OF n] by blast
    then have len: "1 \<le> length (incident_faces nx ny nz (fst c))"
      and pn: "particle_normal c = expected_normal nx ny nz (fst c)"
      by (auto simp: matches_def)
    have nk: "normals (generateSurfaceParticles box r) ! k = expected_normal nx ny nz (fst c)"
      using kk by (simp add: ns c_def [symmetric] pn)
    have pk: "positions (generateSurfaceParticles box r) ! k
        = vadd (bmin box) (cwiseProduct (lattice (fst c))
            (cwiseQuotient (extents box) (lattice (nx, ny, nz))))"
      using kk by (simp add: ps c_def [symmetric] particle_position_def box_step_def cnt)
    show ?thesis
      unfolding nk pk using expected_unit_outward [OF n b len] by simp
  qed
  show ?thesis
    using ps ns planes borders corners each by simp
qed

text \<open>The amended claim C6 at the unit box with particle radius 1/4.\<close>

theorem box_normals_outward_witness:
  "0 < (1 / 4 :: real) \<and> positive_extents unit_box \<and> box_counts unit_box (1 / 4) = (2, 2, 2)
   \<and> vnorm (normals (generateSurfaceParticles unit_box (1 / 4)) ! 0) = 1
   \<and> outward unit_box (positions (generateSurfaceParticles unit_box (1 / 4)) ! 0)
        (normals (generateSurfaceParticles unit_box (1 / 4)) ! 0)
   \<and> matches 2 2 2 3 (corner 2 2 2 0)"
proof -
  have r: "0 < (1 / 4 :: real)" by simp
  have b: "positive_extents unit_box"
    by (simp add: positive_extents_def unit_box_def vx_def vy_def vz_def)
  have len: "0 < length (positions (generateSurfaceParticles unit_box (1 / 4)))"
    by (simp add: positions_generate [OF quarter_counts] box_calls_def length_corners)
  have c: "corner 2 2 2 0 \<in> set (corners 2 2 2)"
    by (simp add: corners_def)
  show ?thesis
    using box_normals_outward [OF r b quarter_counts] len c r b quarter_counts by blast
qed

lemma unit_box_step: "box_step unit_box (1 / 20) = (1 / 10, 1 / 10, 1 / 10)"
  by (simp add: box_step_def unit_box_counts unit_box_extents lattice_def cwiseQuotient_def
      vx_def vy_def vz_def)

text \<open>
  Claim C8: for the unit box and particle radius 0.05 the counts are nx = ny = nz = 10, the
  step is 0.1, and the generator emits exactly 602 particles: 81 on each of the six face
  interiors (the three loop nests emit two faces each), 9 on each of the twelve edges (the
  three loops emit four edges each) and 8 corners.
\<close>

theorem box_count_602:
  "length (positions (generateSurfaceParticles unit_box (1 / 20))) = 602
   \<and> length (normals (generateSurfaceParticles unit_box (1 / 20))) = 602
   \<and> box_counts unit_box (1 / 20) = (10, 10, 10)
   \<and> box_step unit_box (1 / 20) = (1 / 10, 1 / 10, 1 / 10)
   \<and> length (xy_planes 10 10 10) = 2 * 81
   \<and> length (xz_planes 10 10 10) = 2 * 81
   \<and> length (yz_planes 10 10 10) = 2 * 81
   \<and> length (x_borders 10 10 10) = 4 * 9
   \<and> length (y_borders 10 10 10) = 4 * 9
   \<and> length (z_borders 10 10 10) = 4 * 9
   \<and> length (corners 10 10 10) = 8"
  by (simp add: positions_generate [OF unit_box_counts] normals_generate [OF unit_box_counts]
      unit_box_counts box_calls_def unit_box_step
      length_xy_planes length_xz_planes length_yz_planes length_x_borders length_y_borders
      length_z_borders length_corners)

section \<open>Seeding of mesh surfaces\<close>

lemma pi_ge_three: "3 \<le> pi"
proof -
  have "sin (pi / 6) \<le> pi / 6"
    by (rule sin_x_le_x) simp
  then show ?thesis
    by (simp add: sin_30)
qed

lemma length_samplePoint: "length (points (samplePoint p0 e0 e1 st)) = Suc (length (points st))"
  by (simp add: samplePoint_def Let_def split: prod.splits)

lemma length_samplePoint_pow:
  "length (points ((samplePoint p0 e0 e1 ^^ k) st)) = length (points st) + k"
  by (induction k) (simp_all add: length_samplePoint)

lemma rng_samplePoint: "rng (samplePoint p0 e0 e1 st) = (\<lambda>k. rng st (k + 2))"
  by (simp add: samplePoint_def Let_def nextFloat_def split: prod.splits)

lemma rng_samplePoint_pow: "rng ((samplePoint p0 e0 e1 ^^ k) st) = (\<lambda>j. rng st (j + 2 * k))"
  by (induction k) (simp_all add: rng_samplePoint add.commute add.left_commute)

text \<open>What the loop body emits for one triangle.\<close>

lemma seed_triangle_count:
  fixes mesh tri density st
  defines "e0 \<equiv> vsub (vertices mesh ! fst (snd tri)) (vertices mesh ! fst tri)"
    and "e1 \<equiv> vsub (vertices mesh ! snd (snd tri)) (vertices mesh ! fst tri)"
  defines "n \<equiv> density * ((1 / 2) * \<bar>vnorm (cross e0 e1)\<bar>)"
  shows "length (points (seed_triangle density mesh tri st))
         = length (points st) + nat \<lfloor>n\<rfloor> + (if rng st (2 * nat \<lfloor>n\<rfloor>) < n then 1 else 0)"
  unfolding seed_triangle_def Let_def n_def e0_def e1_def
  by (simp add: length_samplePoint length_samplePoint_pow rng_samplePoint_pow nextFloat_def
      split: prod.splits)

lemma one_triangle_n:
  "surface_density 1 * ((1 / 2) * \<bar>vnorm (cross (vsub (4, 0, 0) (0, 0, 0)) (vsub (0, 2, 0) (0, 0, 0)))\<bar>)
   = 4 / pi"
  by (simp add: surface_density_def sqr_def vnorm_def squaredNorm_def dot_def cross_def vsub_def
      vx_def vy_def vz_def real_sqrt_mult)

lemma floor_4_pi: "\<lfloor>4 / pi\<rfloor> = 1"
proof -
  have "1 \<le> 4 / pi" using pi_less_4 by (simp add: field_simps)
  moreover have "4 / pi < 2" using pi_ge_three by (simp add: field_simps)
  ultimately show ?thesis by (simp add: floor_eq_iff)
qed

text \<open>
  With an expected count of at least one, the draw after the deterministic samples is always
  below \<open>n\<close>, so the additional sample is always emitted.
\<close>

lemma seed_triangle_always_extra:
  fixes mesh tri density st
  defines "e0 \<equiv> vsub (vertices mesh ! fst (snd tri)) (vertices mesh ! fst tri)"
    and "e1 \<equiv> vsub (vertices mesh ! snd (snd tri)) (vertices mesh ! fst tri)"
  defines "n \<equiv> density * ((1 / 2) * \<bar>vnorm (cross e0 e1)\<bar>)"
  assumes "unit_draws (rng st)" "1 \<le> n"
  shows "length (points (seed_triangle density mesh tri st)) = length (points st) + nat \<lfloor>n\<rfloor> + 1"
proof -
  have "rng st (2 * nat \<lfloor>n\<rfloor>) < n"
    using assms(4,5) unfolding unit_draws_def by (meson less_le_trans)
  then show ?thesis
    using seed_triangle_count [of density mesh tri st]
    unfolding n_def e0_def e1_def by simp
qed

text \<open>
  Claim C7 on the code: the mesh of one right triangle with legs 4 and 2 and particle radius 1
  has the expected count 4 / pi, between 1 and 4/3. With every draw equal to 0.9 the seeding
  loop emits two samples, whereas the floor plus one more sample exactly when the draw is
  below the fractional part gives one sample.
\<close>

theorem seeding_extra_sample_evaluated:
  "length (points (seed_mesh one_triangle 1 draws_09)) = 2
   \<and> specified_count (4 / pi) (9 / 10) = 1"
proof -
  define st0 where "st0 = \<lparr> rng = draws_09, points = [], totalArea = 0 \<rparr>"
  have v: "vertices one_triangle ! fst ((0, 1, 2) :: nat \<times> nat \<times> nat) = (0, 0, 0)"
    "vertices one_triangle ! fst (snd ((0, 1, 2) :: nat \<times> nat \<times> nat)) = (4, 0, 0)"
    "vertices one_triangle ! snd (snd ((0, 1, 2) :: nat \<times> nat \<times> nat)) = (0, 2, 0)"
    by (simp_all add: one_triangle_def)
  have c: "length (points (seed_triangle (surface_density 1) one_triangle (0, 1, 2) st0))
      = length (points st0) + nat \<lfloor>4 / pi\<rfloor> + (if rng st0 (2 * nat \<lfloor>4 / pi\<rfloor>) < 4 / pi then 1 else 0)"
    using seed_triangle_count [of "surface_density 1" one_triangle "(0, 1, 2)" st0]
    unfolding v one_triangle_n .
  have "9 / 10 < 4 / pi"
    using pi_less_4 by (simp add: field_simps)
  then have "length (points (seed_triangle (surface_density 1) one_triangle (0, 1, 2) st0)) = 2"
    unfolding c by (simp add: st0_def floor_4_pi draws_09_def)
  moreover have "seed_mesh one_triangle 1 draws_09
      = seed_triangle (surface_density 1) one_triangle (0, 1, 2) st0"
    by (simp add: seed_mesh_def st0_def one_triangle_def)
  ultimately have a: "length (points (seed_mesh one_triangle 1 draws_09)) = 2"
    by simp
  have "frac (4 / pi) \<le> 1 / 3"
    using pi_ge_three by (simp add: frac_def floor_4_pi field_simps)
  then have b: "specified_count (4 / pi) (9 / 10) = 1"
    by (simp add: specified_count_def floor_4_pi)
  show ?thesis using a b by simp
qed

section \<open>The maximal timestep\<close>

lemma maxTimestep_init: "maxTimestep (SPH_init ops u sc) = 1 / 1000"
  by (simp add: SPH_init_def Let_def)

text \<open>
  Claim C4, amended: for every configuration \<open>maxTimestep()\<close> returns the constant 1/1000.
  The smaller of the two CFL terms is computed by the constructor, with the literal 9.81 in
  place of the norm of the gravity vector, and is stored in \<open>wcsph.dt\<close>; it does not
  enter the value \<open>maxTimestep()\<close> returns.
\<close>

theorem maxTimestep_constant:
  "maxTimestep_of (SPH_init ops u sc) = 1 / 1000
   \<and> wcsph_dt (SPH_init ops u sc)
       = min ((1 / 4) * kernelRadius (SPH_init ops u sc) / (particleMass (SPH_init ops u sc) * (981 / 100)))
             ((4 / 10) * kernelRadius (SPH_init ops u sc)
                / (wcsph_cs (SPH_init ops u sc) * (1 + (6 / 10) * wcsph_viscosity (SPH_init ops u sc))))"
  by (simp add: maxTimestep_of_def SPH_init_def Let_def)

lemma min_min_less: "b < c \<Longrightarrow> min (min a b) d < (c::real)"
  by (simp add: min_less_iff_disj)

text \<open>
  Claim C4, as stated: \<open>maxTimestep()\<close> returns the smaller of the two CFL terms capped at
  1/1000. With the particle radius 0.005 the second CFL term is 0.008 / 10.03, below 1/1000,
  and \<open>maxTimestep()\<close> still returns 1/1000.
\<close>

theorem maxTimestep_counterexample:
  "maxTimestep_of (SPH_init one_cell 0 fine_scene) \<noteq> specified_max_timestep (SPH_init one_cell 0 fine_scene)
   \<and> maxTimestep_of (SPH_init one_cell 0 fine_scene) = 1 / 1000
   \<and> specified_max_timestep (SPH_init one_cell 0 fine_scene) < 1 / 1000"
proof -
  have a: "maxTimestep_of (SPH_init one_cell 0 fine_scene) = 1 / 1000"
    by (simp add: maxTimestep_of_def maxTimestep_init)
  have k: "kernelRadius (SPH_init one_cell 0 fine_scene) = 2 / 100"
    "wcsph_cs (SPH_init one_cell 0 fine_scene) = 10"
    "wcsph_viscosity (SPH_init one_cell 0 fine_scene) = 5 / 1000"
    by (simp_all add: SPH_init_def Let_def fine_scene_def getOr_def)
  have "(4 / 10) * kernelRadius (SPH_init one_cell 0 fine_scene)
          / (wcsph_cs (SPH_init one_cell 0 fine_scene)
             * (1 + (6 / 10) * wcsph_viscosity (SPH_init one_cell 0 fine_scene))) < 1 / 1000"
    unfolding k by simp
  then have b: "specified_max_timestep (SPH_init one_cell 0 fine_scene) < 1 / 1000"
    unfolding specified_max_timestep_def by (rule min_min_less)
  show ?thesis using a b by simp
qed

section \<open>The stages of a step\<close>

lemma fold_preserves: "(\<And>x s. g (f x s) = g s) \<Longrightarrow> g (fold f xs s) = g s"
  by (induction xs arbitrary: s) simp_all

lemma iterate_preserves: "(\<And>x s. g (f x s) = g s) \<Longrightarrow> g (iterate n f s) = g s"
  by (simp add: iterate_def fold_preserves)

text \<open>Each test of \<open>computeCollisions\<close> is one response.\<close>

lemma handler_respond:
  "violated (bounds st) f (fluidPositions st ! i) \<Longrightarrow>
   collision_handler i (face_normal f) (penetration (bounds st) f (fluidPositions st ! i)) st
     = respond i f st"
  by (cases "i < length (fluidPositions st)")
     (simp_all add: collision_handler_def respond_def restitution_def Let_def)

lemma step_XMin:
  "(let p = fluidPositions st ! i in
      if vx p < vx (bmin (bounds st))
      then collision_handler i (1, 0, 0) (vx (bmin (bounds st)) - vx p) st else st)
   = respond i XMin st"
  using handler_respond [of st XMin i]
  by (auto simp: Let_def violated_def penetration_def face_bound_def respond_def)

lemma step_XMax:
  "(let p = fluidPositions st ! i in
      if vx p > vx (bmax (bounds st))
      then collision_handler i (-1, 0, 0) (vx p - vx (bmax (bounds st))) st else st)
   = respond i XMax st"
  using handler_respond [of st XMax i]
  by (auto simp: Let_def violated_def penetration_def face_bound_def respond_def)

lemma step_YMin:
  "(let p = fluidPositions st ! i in
      if vy p < vy (bmin (bounds st))
      then collision_handler i (0, 1, 0) (vy (bmin (bounds st)) - vy p) st else st)
   = respond i YMin st"
  using handler_respond [of st YMin i]
  by (auto simp: Let_def violated_def penetration_def face_bound_def respond_def)

lemma step_YMax:
  "(let p = fluidPositions st ! i in
      if vy p > vy (bmax (bounds st))
      then collision_handler i (0, -1, 0) (vy p - vy (bmax (bounds st))) st else st)
   = respond i YMax st"
  using handler_respond [of st YMax i]
  by (auto simp: Let_def violated_def penetration_def face_bound_def respond_def)

lemma step_ZMin:
  "(let p = fluidPositions st ! i in
      if vz p < vz (bmin (bounds st))
      then collision_handler i (0, 0, 1) (vz (bmin (bounds st)) - vz p) st else st)
   = respond i ZMin st"
  using handler_respond [of st ZMin i]
  by (auto simp: Let_def violated_def penetration_def face_bound_def respond_def)

lemma step_ZMax:
  "(let p = fluidPositions st ! i in
      if vz p > vz (bmax (bounds st))
      then collision_handler i (0, 0, -1) (vz p - vz (bmax (bounds st))) st else st)
   = respond i ZMax st"
  using handler_respond [of st ZMax i]
  by (auto simp: Let_def violated_def penetration_def face_bound_def respond_def)

lemma collide_at_faces: "collide_at collision_handler i st = fold (respond i) faces st"
  unfolding collide_at_def step_XMin step_XMax step_YMin step_YMax step_ZMin step_ZMax
  by (simp add: faces_def Let_def)


lemma respond_bounds [simp]: "bounds (respond i f st) = bounds st"
  by (simp add: respond_def Let_def)

lemma respond_positions:
  "fluidPositions (respond i f st)
     = (fluidPositions st)[i := clamp_face (bounds st) f (fluidPositions st ! i)]"
  by (simp add: respond_def clamp_face_def Let_def)

lemma respond_length [simp]: "length (fluidPositions (respond i f st)) = length (fluidPositions st)"
  by (simp add: respond_positions)

lemma faces_positions:
  assumes "i < length (fluidPositions st)"
  shows "fluidPositions (fold (respond i) faces st)
     = (fluidPositions st)[i := project (bounds st) (fluidPositions st ! i)]"
  using assms by (simp add: faces_def project_def respond_positions)

lemma project_in_bounds:
  assumes "valid_box b"
  shows "in_bounds b (project b p)"
proof -
  obtain x y z where p: "p = (x, y, z)" by (metis prod_cases3)
  show ?thesis
    using assms unfolding p project_def faces_def valid_box_def in_bounds_def
    by (simp add: clamp_face_def violated_def penetration_def face_bound_def
        vadd_def smul_def vx_def vy_def vz_def)
qed

lemma collide_at_bounds [simp]: "bounds (collide_at collision_handler i st) = bounds st"
  by (simp add: collide_at_faces faces_def)

lemma collide_at_length [simp]:
  "length (fluidPositions (collide_at collision_handler i st)) = length (fluidPositions st)"
  by (simp add: collide_at_faces faces_def)

lemma collide_at_positions:
  "i < length (fluidPositions st) \<Longrightarrow>
   fluidPositions (collide_at collision_handler i st)
     = (fluidPositions st)[i := project (bounds st) (fluidPositions st ! i)]"
  by (simp add: collide_at_faces faces_positions)

lemma collide_upto:
  assumes "n \<le> length (fluidPositions st)"
  shows "bounds (fold (collide_at collision_handler) [0..<n] st) = bounds st
     \<and> length (fluidPositions (fold (collide_at collision_handler) [0..<n] st))
         = length (fluidPositions st)
     \<and> (\<forall>k. k < length (fluidPositions st) \<longrightarrow>
          fluidPositions (fold (collide_at collision_handler) [0..<n] st) ! k
            = (if k < n then project (bounds st) (fluidPositions st ! k)
               else fluidPositions st ! k))"
  using assms
proof (induction n)
  case 0
  then show ?case by simp
next
  case (Suc n)
  define s where "s = fold (collide_at collision_handler) [0..<n] st"
  have ih: "bounds s = bounds st" "length (fluidPositions s) = length (fluidPositions st)"
    "\<And>k. k < length (fluidPositions st) \<Longrightarrow>
       fluidPositions s ! k = (if k < n then project (bounds st) (fluidPositions st ! k)
               else fluidPositions st ! k)"
    using Suc unfolding s_def by simp_all
  have n: "n < length (fluidPositions s)" using Suc.prems ih(2) by simp
  have step: "fold (collide_at collision_handler) [0..<Suc n] st = collide_at collision_handler n s"
    by (simp add: s_def)
  show ?case
    unfolding step using n ih
    by (auto simp: collide_at_positions nth_list_update)
qed


lemma computeCollisions_in_bounds:
  assumes "valid_box (bounds st)" "k < length (fluidPositions st)"
  shows "in_bounds (bounds st) (fluidPositions (computeCollisions collision_handler st) ! k)"
  using collide_upto [of "length (fluidPositions st)" st] assms project_in_bounds
  by (simp add: computeCollisions_def iterate_def)

text \<open>What each stage leaves unchanged.\<close>

lemma swap_entries_length [simp]: "length (swap_entries i j xs) = length xs"
  by (simp add: swap_entries_def)

lemma grid_update_frame:
  "bounds (grid_update ops st) = bounds st"
  "sim_t (grid_update ops st) = sim_t st"
  "length (fluidPositions (grid_update ops st)) = length (fluidPositions st)"
proof -
  obtain g swaps where u: "gupdate ops (fluidGrid st) (fluidPositions st) = (g, swaps)"
    by (cases "gupdate ops (fluidGrid st) (fluidPositions st)") auto
  let ?f = "\<lambda>(i, j) s. s\<lparr> fluidPositions := swap_entries i j (fluidPositions s),
                              fluidVelocities := swap_entries i j (fluidVelocities s) \<rparr>"
  have gu: "grid_update ops st = fold ?f swaps (st\<lparr> fluidGrid := g \<rparr>)"
    by (simp add: grid_update_def u)
  show "bounds (grid_update ops st) = bounds st"
    unfolding gu by (subst fold_preserves [where g = bounds]) auto
  show "sim_t (grid_update ops st) = sim_t st"
    unfolding gu by (subst fold_preserves [where g = sim_t]) auto
  show "length (fluidPositions (grid_update ops st)) = length (fluidPositions st)"
    unfolding gu by (subst fold_preserves [where g = "\<lambda>s. length (fluidPositions s)"]) auto
qed

lemma density_at_frame:
  "bounds (density_at ops i st) = bounds st"
  "sim_t (density_at ops i st) = sim_t st"
  "fluidPositions (density_at ops i st) = fluidPositions st"
  by (simp_all add: density_at_def Let_def)

lemma computeDensity_frame:
  "bounds (computeDensity ops st) = bounds st"
  "sim_t (computeDensity ops st) = sim_t st"
  "fluidPositions (computeDensity ops st) = fluidPositions st"
  unfolding computeDensity_def
  by (rule iterate_preserves, simp add: density_at_frame)+

lemma normal_at_frame:
  "bounds (normal_at ops i st) = bounds st"
  "sim_t (normal_at ops i st) = sim_t st"
  "fluidPositions (normal_at ops i st) = fluidPositions st"
  "fluidDensities (normal_at ops i st) = fluidDensities st"
  "fluidPressures (normal_at ops i st) = fluidPressures st"
  by (simp_all add: normal_at_def Let_def)

lemma computeNormals_frame:
  "bounds (computeNormals ops st) = bounds st"
  "sim_t (computeNormals ops st) = sim_t st"
  "fluidPositions (computeNormals ops st) = fluidPositions st"
  "fluidDensities (computeNormals ops st) = fluidDensities st"
  "fluidPressures (computeNormals ops st) = fluidPressures st"
  unfolding computeNormals_def
  by (rule iterate_preserves, simp add: normal_at_frame)+

lemma force_visit_state:
  "snd (force_visit i j as) = snd as \<or> snd (force_visit i j as) = nudge j (snd as)"
  by (simp add: force_visit_def Let_def)

lemma force_visit_frame:
  "bounds (snd (force_visit i j as)) = bounds (snd as)"
  "sim_t (snd (force_visit i j as)) = sim_t (snd as)"
  "length (fluidPositions (snd (force_visit i j as))) = length (fluidPositions (snd as))"
  "fluidDensities (snd (force_visit i j as)) = fluidDensities (snd as)"
  "fluidPressures (snd (force_visit i j as)) = fluidPressures (snd as)"
  using force_visit_state [of i j as] by (auto simp: nudge_def)

lemma accumulate_frame:
  "bounds (snd (accumulate ops i st)) = bounds st"
  "sim_t (snd (accumulate ops i st)) = sim_t st"
  "length (fluidPositions (snd (accumulate ops i st))) = length (fluidPositions st)"
  "fluidDensities (snd (accumulate ops i st)) = fluidDensities st"
  "fluidPressures (snd (accumulate ops i st)) = fluidPressures st"
proof -
  let ?L = "glookup ops (fluidGrid st) (fluidPositions st ! i) (kernelRadius st)"
  have "bounds (snd (fold (force_visit i) ?L (no_force, st))) = bounds (snd (no_force, st))"
    by (rule fold_preserves [where g = "\<lambda>as. bounds (snd as)"]) (rule force_visit_frame)
  then show "bounds (snd (accumulate ops i st)) = bounds st"
    by (simp add: accumulate_def)
  have "sim_t (snd (fold (force_visit i) ?L (no_force, st))) = sim_t (snd (no_force, st))"
    by (rule fold_preserves [where g = "\<lambda>as. sim_t (snd as)"]) (rule force_visit_frame)
  then show "sim_t (snd (accumulate ops i st)) = sim_t st"
    by (simp add: accumulate_def)
  have "length (fluidPositions (snd (fold (force_visit i) ?L (no_force, st))))
      = length (fluidPositions (snd (no_force, st)))"
    by (rule fold_preserves [where g = "\<lambda>as. length (fluidPositions (snd as))"])
       (rule force_visit_frame)
  then show "length (fluidPositions (snd (accumulate ops i st))) = length (fluidPositions st)"
    by (simp add: accumulate_def)
  have "fluidDensities (snd (fold (force_visit i) ?L (no_force, st)))
      = fluidDensities (snd (no_force, st))"
    by (rule fold_preserves [where g = "\<lambda>as. fluidDensities (snd as)"])
       (rule force_visit_frame)
  then show "fluidDensities (snd (accumulate ops i st)) = fluidDensities st"
    by (simp add: accumulate_def)
  have "fluidPressures (snd (fold (force_visit i) ?L (no_force, st)))
      = fluidPressures (snd (no_force, st))"
    by (rule fold_preserves [where g = "\<lambda>as. fluidPressures (snd as)"])
       (rule force_visit_frame)
  then show "fluidPressures (snd (accumulate ops i st)) = fluidPressures st"
    by (simp add: accumulate_def)
qed



lemma force_at_state:
  "\<exists>F. force_at ops i st = (snd (accumulate ops i st))\<lparr> fluidForces := F \<rparr>"
  unfolding force_at_def Let_def case_prod_beta by (rule exI) (rule refl)

lemma force_at_frame:
  "bounds (force_at ops i st) = bounds st"
  "sim_t (force_at ops i st) = sim_t st"
  "length (fluidPositions (force_at ops i st)) = length (fluidPositions st)"
  "fluidDensities (force_at ops i st) = fluidDensities st"
  "fluidPressures (force_at ops i st) = fluidPressures st"
proof -
  obtain F where F: "force_at ops i st = (snd (accumulate ops i st))\<lparr> fluidForces := F \<rparr>"
    using force_at_state by blast
  show "bounds (force_at ops i st) = bounds st"
    "sim_t (force_at ops i st) = sim_t st"
    "length (fluidPositions (force_at ops i st)) = length (fluidPositions st)"
    "fluidDensities (force_at ops i st) = fluidDensities st"
    "fluidPressures (force_at ops i st) = fluidPressures st"
    unfolding F by (simp_all add: accumulate_frame)
qed

lemma computeForces_frame:
  "bounds (computeForces ops st) = bounds st"
  "sim_t (computeForces ops st) = sim_t st"
  "length (fluidPositions (computeForces ops st)) = length (fluidPositions st)"
  "fluidDensities (computeForces ops st) = fluidDensities st"
  "fluidPressures (computeForces ops st) = fluidPressures st"
  unfolding computeForces_def
  using iterate_preserves [where g = "\<lambda>s. length (fluidPositions s)" and f = "force_at ops"]
  by (simp_all add: iterate_preserves force_at_frame)

lemma integrate_at_frame:
  "bounds (integrate_at dt i st) = bounds st"
  "sim_t (integrate_at dt i st) = sim_t st"
  "length (fluidPositions (integrate_at dt i st)) = length (fluidPositions st)"
  "fluidDensities (integrate_at dt i st) = fluidDensities st"
  "fluidPressures (integrate_at dt i st) = fluidPressures st"
  by (simp_all add: integrate_at_def Let_def)

lemma integrate_frame:
  "bounds (integrate dt st) = bounds st"
  "sim_t (integrate dt st) = sim_t st"
  "length (fluidPositions (integrate dt st)) = length (fluidPositions st)"
  "fluidDensities (integrate dt st) = fluidDensities st"
  "fluidPressures (integrate dt st) = fluidPressures st"
  unfolding integrate_def
  using iterate_preserves [where g = "\<lambda>s. length (fluidPositions s)" and f = "integrate_at dt"]
  by (simp_all add: iterate_preserves integrate_at_frame)

lemma respond_frame:
  "sim_t (respond i f st) = sim_t st"
  "fluidDensities (respond i f st) = fluidDensities st"
  "fluidPressures (respond i f st) = fluidPressures st"
  by (simp_all add: respond_def Let_def)

lemma collide_at_frame:
  "sim_t (collide_at collision_handler i st) = sim_t st"
  "fluidDensities (collide_at collision_handler i st) = fluidDensities st"
  "fluidPressures (collide_at collision_handler i st) = fluidPressures st"
  by (simp_all add: collide_at_faces faces_def respond_frame)

lemma computeCollisions_frame:
  "sim_t (computeCollisions collision_handler st) = sim_t st"
  "fluidDensities (computeCollisions collision_handler st) = fluidDensities st"
  "fluidPressures (computeCollisions collision_handler st) = fluidPressures st"
  unfolding computeCollisions_def
  by (rule iterate_preserves, simp add: collide_at_frame)+


lemma update_in_bounds:
  assumes "valid_box (bounds st)" "i < length (fluidPositions st)"
  shows "in_bounds (bounds st) (fluidPositions (update ops dt st) ! i)"
proof -
  define s5 where "s5 = integrate dt (computeForces ops (computeNormals ops
      (computeDensity ops (grid_update ops (st\<lparr> sim_t := sim_t st + dt \<rparr>)))))"
  have u: "update ops dt st = computeCollisions collision_handler s5"
    by (simp add: update_def s5_def Let_def)
  have b5: "bounds s5 = bounds st"
    by (simp add: s5_def integrate_frame computeForces_frame computeNormals_frame
        computeDensity_frame grid_update_frame)
  have l5: "length (fluidPositions s5) = length (fluidPositions st)"
    by (simp add: s5_def integrate_frame computeForces_frame computeNormals_frame
        computeDensity_frame grid_update_frame)
  show ?thesis
    using computeCollisions_in_bounds [of s5 i] assms b5 l5 by (simp add: u)
qed

lemma SPH_init_fields:
  "bounds (SPH_init ops u sc) = world_bounds sc"
  "sim_t (SPH_init ops u sc) = 0"
  "fluidGrid (SPH_init ops u sc) = ginit ops (world_bounds sc) (4 * getOr (set_particleRadius (settings sc)) (1 / 100))"
  "particleMass (SPH_init ops u sc)
     = getOr (set_restDensity (settings sc)) 1000
       / cube (1 / (2 * getOr (set_particleRadius (settings sc)) (1 / 100)))"
  "gravity (SPH_init ops u sc) = getOr (set_gravity (settings sc)) (0, - 981 / 100, 0)"
  "kernelRadius (SPH_init ops u sc) = 4 * getOr (set_particleRadius (settings sc)) (1 / 100)"
  "kernelRadius2 (SPH_init ops u sc) = sqr (4 * getOr (set_particleRadius (settings sc)) (1 / 100))"
  "fluidPositions (SPH_init ops u sc)
     = concat (map (voxelizeBox (2 * getOr (set_particleRadius (settings sc)) (1 / 100))) (boxes sc))
       @ concat (map (voxelizeSphere (2 * getOr (set_particleRadius (settings sc)) (1 / 100))) (spheres sc))"
  "fluidVelocities (SPH_init ops u sc) = replicate (length (fluidPositions (SPH_init ops u sc))) vzero"
  "fluidNormals (SPH_init ops u sc) = replicate (length (fluidPositions (SPH_init ops u sc))) vzero"
  "fluidForces (SPH_init ops u sc) = replicate (length (fluidPositions (SPH_init ops u sc))) vzero"
  "fluidDensities (SPH_init ops u sc) = replicate (length (fluidPositions (SPH_init ops u sc))) 0"
  "fluidPressures (SPH_init ops u sc) = replicate (length (fluidPositions (SPH_init ops u sc))) 0"
  "kernel (SPH_init ops u sc) = kernel_init (4 * getOr (set_particleRadius (settings sc)) (1 / 100))"
  "restDensity (SPH_init ops u sc) = getOr (set_restDensity (settings sc)) 1000"
  by (simp_all add: SPH_init_def Let_def)

lemma voxelize_point: "voxelizeBox (1 / 50) point_box = [(0, 0, 0)]"
  by (simp add: voxelizeBox_def point_box_def vx_def vy_def vz_def)

lemma voxelize_segment: "voxelizeBox (1 / 50) segment_box = [(0, 0, 0), (1 / 50, 0, 0)]"
  by (simp add: voxelizeBox_def segment_box_def vx_def vy_def vz_def upto.simps)

lemma one_particle_fields:
  "bounds (one_particle_in b) = b"
  "sim_t (one_particle_in b) = 0"
  "fluidGrid (one_particle_in b) = 0"
  "particleMass (one_particle_in b) = 8 / 1000"
  "gravity (one_particle_in b) = (0, - 981 / 100, 0)"
  "kernelRadius (one_particle_in b) = 4 / 100"
  "kernelRadius2 (one_particle_in b) = 16 / 10000"
  "fluidPositions (one_particle_in b) = [(0, 0, 0)]"
  "fluidVelocities (one_particle_in b) = [vzero]"
  "fluidNormals (one_particle_in b) = [vzero]"
  "fluidForces (one_particle_in b) = [vzero]"
  "fluidDensities (one_particle_in b) = [0]"
  "fluidPressures (one_particle_in b) = [0]"
  by (simp_all add: one_particle_in_def SPH_init_fields default_settings_def getOr_def
      voxelize_point cube_def sqr_def one_cell_def)

lemma one_cell_ops:
  "glookup one_cell g p r = [0..<g]"
  "gupdate one_cell g xs = (length xs, [])"
  by (simp_all add: one_cell_def)

lemma grid_update_one_cell:
  "grid_update one_cell st = st\<lparr> fluidGrid := length (fluidPositions st) \<rparr>"
  by (simp add: grid_update_def one_cell_ops)

lemma force_visit_self: "force_visit i i as = as"
  by (simp add: force_visit_def Let_def)


lemma normal_at_shape:
  "\<exists>n. normal_at ops i st = st\<lparr> fluidNormals := n \<rparr> \<and> length n = length (fluidNormals st)"
  unfolding normal_at_def Let_def by (rule exI, rule conjI, rule refl) simp




section \<open>Collisions and the timestep of a step\<close>





lemma face_normal_unit: "vnorm (face_normal f) = 1"
  by (cases f) (simp_all add: vnorm_def squaredNorm_def dot_def vx_def vy_def vz_def)

lemma face_normal_inward:
  "positive_extents b \<Longrightarrow> coordinate f q = face_bound b f \<Longrightarrow> inward b q (face_normal f)"
  by (cases f)
     (simp_all add: positive_extents_def face_bound_def inward_def centre_def dot_def vsub_def
       vadd_def smul_def vx_def vy_def vz_def)

lemma response_reaches_face:
  "violated b f p \<Longrightarrow>
   0 < penetration b f p
   \<and> coordinate f (vadd p (smul (penetration b f p) (face_normal f))) = face_bound b f"
  by (cases f)
     (simp_all add: violated_def penetration_def face_bound_def vadd_def smul_def
       vx_def vy_def vz_def)

text \<open>
  Claim C3: the collision stage treats a particle by the six responses of the specification,
  in the order x-min, x-max, y-min, y-max, z-min, z-max: when the coordinate lies beyond a
  face, \<open>x += n * d\<close> and \<open>v -= (1 + c) * (v . n) * n\<close> with \<open>c = 1/2\<close>, where
  \<open>n\<close> is the axis-aligned unit normal that points into the box and \<open>d\<close> is the
  positive distance to the face, so that the response puts the coordinate onto the face.
\<close>

theorem collision_response:
  "computeCollisions collision_handler st
     = iterate (length (fluidPositions st)) (\<lambda>k. fold (respond k) faces) st
   \<and> collide_at collision_handler i st = fold (respond i) faces st
   \<and> restitution = 1 / 2
   \<and> (\<forall>f. vnorm (face_normal f) = 1
          \<and> (\<forall>b q. positive_extents b \<and> coordinate f q = face_bound b f
                 \<longrightarrow> inward b q (face_normal f)))
   \<and> (\<forall>f b p. violated b f p \<longrightarrow>
          0 < penetration b f p
          \<and> coordinate f (vadd p (smul (penetration b f p) (face_normal f))) = face_bound b f)"
proof -
  have "collide_at collision_handler = (\<lambda>k s. fold (respond k) faces (s :: 'a SPH))"
    by (intro ext) (rule collide_at_faces)
  then have "computeCollisions collision_handler st
     = iterate (length (fluidPositions st)) (\<lambda>k. fold (respond k) faces) st"
    by (simp add: computeCollisions_def)
  then show ?thesis
    using collide_at_faces [of i st] face_normal_unit face_normal_inward response_reaches_face
    by (simp add: restitution_def)
qed

lemma fallen_fields:
  "bounds fallen_particle = cube_box"
  "fluidPositions fallen_particle = [(0, -2, 0)]"
  "fluidVelocities fallen_particle = [(0, -3, 0)]"
  by (simp_all add: fallen_particle_def one_particle_def one_particle_fields)

lemma respond_idle:
  "\<not> violated (bounds st) f (fluidPositions st ! i) \<Longrightarrow> respond i f st = st"
  by (simp add: respond_def Let_def)

text \<open>
  Claim C3 at a particle one unit below the floor with velocity (0, -3, 0): the response of
  the face y-min puts it onto the floor with velocity (0, 1.5, 0).
\<close>

theorem collision_response_witness:
  "violated cube_box YMin (0, -2, 0)
   \<and> penetration cube_box YMin (0, -2, 0) = 1
   \<and> collide_at collision_handler 0 fallen_particle
       = fallen_particle\<lparr> fluidPositions := [(0, -1, 0)], fluidVelocities := [(0, 3 / 2, 0)] \<rparr>"
proof -
  have v: "violated cube_box YMin (0, -2, 0)"
    by (simp add: violated_def face_bound_def cube_box_def vx_def vy_def vz_def)
  have d: "penetration cube_box YMin (0, -2, 0) = 1"
    by (simp add: penetration_def face_bound_def cube_box_def vx_def vy_def vz_def)
  have x: "respond 0 XMin fallen_particle = fallen_particle"
    "respond 0 XMax fallen_particle = fallen_particle"
    by (simp_all add: respond_idle fallen_fields violated_def face_bound_def cube_box_def
        vx_def vy_def vz_def)
  define s where "s = fallen_particle\<lparr> fluidPositions := [(0, -1, 0)], fluidVelocities := [(0, 3 / 2, 0)] \<rparr>"
  have y: "respond 0 YMin fallen_particle = s"
    using v by (simp add: respond_def Let_def fallen_fields d s_def restitution_def
        vadd_def vsub_def smul_def dot_def vx_def vy_def vz_def)
  have sf: "bounds s = cube_box" "fluidPositions s = [(0, -1, 0)]"
    by (simp_all add: s_def fallen_fields)
  have r: "respond 0 YMax s = s" "respond 0 ZMin s = s" "respond 0 ZMax s = s"
    by (simp_all add: respond_idle sf violated_def face_bound_def cube_box_def
        vx_def vy_def vz_def)
  have "fold (respond 0) faces fallen_particle = s"
    by (simp add: faces_def x y r)
  then show ?thesis
    using collision_response [where i = 0 and st = fallen_particle] v d by (simp add: s_def)
qed


section \<open>The density stage\<close>

lemma iterateNeighbours_sum:
  "iterateNeighbours ops st xs p (\<lambda>j r r2 d. d + g r2) acc
   = acc + sum_list (map (\<lambda>j. g (squaredNorm (vsub p (xs ! j))))
       (filter (\<lambda>j. squaredNorm (vsub p (xs ! j)) < kernelRadius2 st)
          (glookup ops (fluidGrid st) p (kernelRadius st))))"
proof -
  have "fold (\<lambda>j a. let r = vsub p (xs ! j); r2 = squaredNorm r
                    in if r2 < kernelRadius2 st then a + g r2 else a) L acc
      = acc + sum_list (map (\<lambda>j. g (squaredNorm (vsub p (xs ! j))))
          (filter (\<lambda>j. squaredNorm (vsub p (xs ! j)) < kernelRadius2 st) L))" for L
    by (induction L arbitrary: acc) (simp_all add: Let_def add.assoc)
  then show ?thesis
    by (simp add: iterateNeighbours_def)
qed

lemma lookup_okD:
  assumes "lookup_ok ops st"
  shows "distinct (glookup ops (fluidGrid st) p (kernelRadius st))"
    and "j \<in> set (glookup ops (fluidGrid st) p (kernelRadius st)) \<Longrightarrow> j < length (fluidPositions st)"
    and "j < length (fluidPositions st) \<Longrightarrow>
         squaredNorm (vsub p (fluidPositions st ! j)) < kernelRadius2 st \<Longrightarrow>
         j \<in> set (glookup ops (fluidGrid st) p (kernelRadius st))"
  using assms unfolding lookup_ok_def by blast+

lemma lookup_neighbours:
  assumes "lookup_ok ops st" "i < length (fluidPositions st)"
  shows "set (filter (\<lambda>j. squaredNorm (vsub (fluidPositions st ! i) (fluidPositions st ! j))
                          < kernelRadius2 st)
           (glookup ops (fluidGrid st) (fluidPositions st ! i) (kernelRadius st)))
         = neighbours st i"
    and "distinct (glookup ops (fluidGrid st) (fluidPositions st ! i) (kernelRadius st))"
  using lookup_okD [OF assms(1), where p = "fluidPositions st ! i"]
  unfolding neighbours_def by auto

lemma density_value_sum:
  assumes "lookup_ok ops st" "i < length (fluidPositions st)"
  shows "density_value ops st i
     = poly6Constant (kernel st) * particleMass st
       * (\<Sum>j\<in>neighbours st i.
            poly6 (kernel st) (squaredNorm (vsub (fluidPositions st ! i) (fluidPositions st ! j))))"
proof -
  let ?L = "glookup ops (fluidGrid st) (fluidPositions st ! i) (kernelRadius st)"
  let ?P = "\<lambda>j. squaredNorm (vsub (fluidPositions st ! i) (fluidPositions st ! j)) < kernelRadius2 st"
  let ?f = "\<lambda>j. poly6 (kernel st) (squaredNorm (vsub (fluidPositions st ! i) (fluidPositions st ! j)))"
  have "distinct (filter ?P ?L)"
    using lookup_neighbours(2) [OF assms] by simp
  then have "sum_list (map ?f (filter ?P ?L)) = sum ?f (set (filter ?P ?L))"
    by (rule sum_list_distinct_conv_sum_set)
  also have "\<dots> = sum ?f (neighbours st i)"
    using lookup_neighbours(1) [OF assms] by simp
  finally show ?thesis
    by (simp add: density_value_def iterateNeighbours_sum)
qed

lemma pressure_value_tait:
  "pressure_value st d = wcsph_B st * ((d / restDensity st) ^ 7 - 1)"
  by (simp add: pressure_value_def Let_def power_def numeral_eq_Suc mult.assoc)

lemma density_value_cong:
  "density_value ops (st\<lparr> fluidDensities := D, fluidPressures := P \<rparr>) i = density_value ops st i"
  by (simp add: density_value_def iterateNeighbours_def)

lemma pressure_value_cong:
  "pressure_value (st\<lparr> fluidDensities := D, fluidPressures := P \<rparr>) d = pressure_value st d"
  by (simp add: pressure_value_def)

lemma density_at_values:
  "density_at ops i st
     = st\<lparr> fluidDensities := (fluidDensities st)[i := density_value ops st i],
            fluidPressures := (fluidPressures st)[i := pressure_value st (density_value ops st i)] \<rparr>"
  by (simp add: density_at_def density_value_def pressure_value_def Let_def)

lemma density_upto:
  "\<exists>D P. fold (density_at ops) [0..<n] st = st\<lparr> fluidDensities := D, fluidPressures := P \<rparr>
     \<and> length D = length (fluidDensities st) \<and> length P = length (fluidPressures st)
     \<and> (\<forall>k. k < n \<and> k < length D \<longrightarrow> D ! k = density_value ops st k)
     \<and> (\<forall>k. k < n \<and> k < length P \<longrightarrow> P ! k = pressure_value st (density_value ops st k))"
proof (induction n)
  case 0
  have "st = st\<lparr> fluidDensities := fluidDensities st, fluidPressures := fluidPressures st \<rparr>"
    by simp
  then show ?case by (metis fold_simps(1) not_less_zero upt_0)
next
  case (Suc n)
  then obtain D P where s: "fold (density_at ops) [0..<n] st = st\<lparr> fluidDensities := D, fluidPressures := P \<rparr>"
    and l: "length D = length (fluidDensities st)" "length P = length (fluidPressures st)"
    and d: "\<And>k. k < n \<Longrightarrow> k < length D \<Longrightarrow> D ! k = density_value ops st k"
    and p: "\<And>k. k < n \<Longrightarrow> k < length P \<Longrightarrow> P ! k = pressure_value st (density_value ops st k)"
    by blast
  let ?D = "D[n := density_value ops st n]"
  let ?P = "P[n := pressure_value st (density_value ops st n)]"
  have "fold (density_at ops) [0..<Suc n] st
      = density_at ops n (st\<lparr> fluidDensities := D, fluidPressures := P \<rparr>)"
    by (simp add: s)
  also have "\<dots> = st\<lparr> fluidDensities := ?D, fluidPressures := ?P \<rparr>"
    unfolding density_at_values density_value_cong pressure_value_cong by simp
  finally have e: "fold (density_at ops) [0..<Suc n] st = st\<lparr> fluidDensities := ?D, fluidPressures := ?P \<rparr>" .
  have "\<forall>k. k < Suc n \<and> k < length ?D \<longrightarrow> ?D ! k = density_value ops st k"
    using d by (auto simp: nth_list_update less_Suc_eq)
  moreover have "\<forall>k. k < Suc n \<and> k < length ?P \<longrightarrow> ?P ! k = pressure_value st (density_value ops st k)"
    using p by (auto simp: nth_list_update less_Suc_eq)
  ultimately show ?case
    using e l by (intro exI [of _ ?D] exI [of _ ?P]) simp
qed

lemma computeDensity_values:
  assumes "arrays_ok st" "i < length (fluidPositions st)"
  shows "fluidDensities (computeDensity ops st) ! i = density_value ops st i"
    and "fluidPressures (computeDensity ops st) ! i = pressure_value st (density_value ops st i)"
  using density_upto [of ops "length (fluidPositions st)" st] assms
  by (auto simp: computeDensity_def iterate_def arrays_ok_def)

lemma update_densities:
  "fluidDensities (update ops dt st)
     = fluidDensities (computeDensity ops (grid_update ops (st\<lparr> sim_t := sim_t st + dt \<rparr>)))"
  "fluidPressures (update ops dt st)
     = fluidPressures (computeDensity ops (grid_update ops (st\<lparr> sim_t := sim_t st + dt \<rparr>)))"
  by (simp_all add: update_def Let_def computeCollisions_frame integrate_frame
      computeForces_frame computeNormals_frame)

lemma self_neighbour:
  "0 < kernelRadius2 st \<Longrightarrow> i < length (fluidPositions st) \<Longrightarrow> i \<in> neighbours st i"
  by (simp add: neighbours_def squaredNorm_def dot_def vsub_def vx_def vy_def vz_def)

text \<open>
  Claim C1: let \<open>s1\<close> be the state at the start of the density stage of \<open>update\<close>, that
  is, after the grid update. If the grid keeps its contract for \<open>s1\<close>, the per-particle
  vectors have one entry per particle and the rest density is not zero, then for every fluid
  particle \<open>i\<close> the density \<open>update\<close> stores is
  \<open>K_p * m * (sum of poly6(|x_i - x_j|^2) over the neighbours j of i)\<close>, the neighbours being
  the particles with squared distance below \<open>_kernelRadius2\<close>, among them \<open>i\<close> itself
  when \<open>_kernelRadius2\<close> is positive; and the pressure it stores is
  \<open>B * ((rho_i / rho_0)^7 - 1)\<close>, with no clamping.
\<close>

theorem density_stage:
  assumes s1: "s1 = grid_update ops (st\<lparr> sim_t := sim_t st + dt \<rparr>)"
    and ok: "lookup_ok ops s1" "arrays_ok s1"
    and i: "i < length (fluidPositions s1)"
    and rho0: "restDensity s1 \<noteq> 0"
  shows "fluidDensities (update ops dt st) ! i
           = poly6Constant (kernel s1) * particleMass s1
             * (\<Sum>j\<in>neighbours s1 i.
                  poly6 (kernel s1) (squaredNorm (vsub (fluidPositions s1 ! i) (fluidPositions s1 ! j))))
     \<and> fluidPressures (update ops dt st) ! i
           = wcsph_B s1 * ((fluidDensities (update ops dt st) ! i / restDensity s1) ^ 7 - 1)
     \<and> (0 < kernelRadius2 s1 \<longrightarrow> i \<in> neighbours s1 i)"
proof -
  have d: "fluidDensities (update ops dt st) ! i = density_value ops s1 i"
    unfolding update_densities s1 [symmetric] by (rule computeDensity_values [OF ok(2) i])
  have p: "fluidPressures (update ops dt st) ! i = pressure_value s1 (density_value ops s1 i)"
    unfolding update_densities s1 [symmetric] by (rule computeDensity_values [OF ok(2) i])
  show ?thesis
    unfolding p d pressure_value_tait density_value_sum [OF ok(1) i]
    using self_neighbour [OF _ i] by simp
qed

lemma one_particle_more:
  "restDensity (one_particle_in b) = 1000"
  "wcsph_B (one_particle_in b) = 100000 / 7"
  "kernel (one_particle_in b) = kernel_init (4 / 100)"
  by (simp_all add: one_particle_in_def SPH_init_def Let_def default_settings_def getOr_def sqr_def)

lemma pow7_less_one: "0 \<le> (a::real) \<Longrightarrow> a < 1 \<Longrightarrow> a ^ 7 < 1"
  by (simp add: power_less_one_iff)

text \<open>
  Claim C1 at one particle: its only neighbour is itself, the density is 39375 / (64 pi),
  about 196, below the rest density 1000, and the pressure stored is negative.
\<close>

theorem density_stage_witness:
  "fluidDensities (update one_cell 1 one_particle) ! 0 = 39375 / (64 * pi)
   \<and> fluidPressures (update one_cell 1 one_particle) ! 0
       = 100000 / 7 * ((39375 / (64 * pi) / 1000) ^ 7 - 1)
   \<and> fluidPressures (update one_cell 1 one_particle) ! 0 < 0"
proof -
  define s1 where "s1 = one_particle\<lparr> sim_t := 1, fluidGrid := 1 \<rparr>"
  have s1: "s1 = grid_update one_cell (one_particle\<lparr> sim_t := sim_t one_particle + 1 \<rparr>)"
    by (simp add: s1_def grid_update_one_cell one_particle_def one_particle_fields)
  have f: "fluidPositions s1 = [(0, 0, 0)]" "kernelRadius2 s1 = 16 / 10000" "fluidGrid s1 = 1"
    "restDensity s1 = 1000" "wcsph_B s1 = 100000 / 7" "kernel s1 = kernel_init (4 / 100)"
    "particleMass s1 = 8 / 1000"
    by (simp_all add: s1_def one_particle_def one_particle_fields one_particle_more)
  have ok: "lookup_ok one_cell s1"
    by (simp add: lookup_ok_def one_cell_ops f)
  have ar: "arrays_ok s1"
    by (simp add: arrays_ok_def s1_def one_particle_def one_particle_fields)
  have i: "0 < length (fluidPositions s1)"
    by (simp add: f)
  have r: "restDensity s1 \<noteq> 0"
    by (simp add: f)
  have n: "neighbours s1 0 = {0}"
    by (auto simp: neighbours_def f squaredNorm_def dot_def vsub_def vx_def vy_def vz_def)
  have k: "poly6Constant (kernel s1) * particleMass s1 * poly6 (kernel s1) 0 = 39375 / (64 * pi)"
    by (simp add: f kernel_init_def field_simps)
  have sm: "(\<Sum>j\<in>neighbours s1 0.
       poly6 (kernel s1) (squaredNorm (vsub (fluidPositions s1 ! 0) (fluidPositions s1 ! j))))
     = poly6 (kernel s1) 0"
    unfolding n by (simp add: f squaredNorm_def dot_def vsub_def vx_def vy_def vz_def)
  note ds = density_stage [OF s1 ok ar i r]
  have d: "fluidDensities (update one_cell 1 one_particle) ! 0 = 39375 / (64 * pi)"
    using ds [THEN conjunct1] unfolding sm k .
  have p: "fluidPressures (update one_cell 1 one_particle) ! 0
       = 100000 / 7 * ((39375 / (64 * pi) / 1000) ^ 7 - 1)"
    using ds [THEN conjunct2, THEN conjunct1] unfolding d f .
  have "39375 / (64 * pi) / 1000 < 1"
    using pi_ge_two by (simp add: field_simps)
  moreover have "0 \<le> 39375 / (64 * pi) / 1000"
    by simp
  ultimately have "(39375 / (64 * pi) / 1000) ^ 7 < 1"
    by (rule pow7_less_one [rotated])
  then have "100000 / 7 * ((39375 / (64 * pi) / 1000) ^ 7 - 1) < 0"
    by (simp add: mult_less_0_iff)
  then show ?thesis
    using d p by simp
qed


section \<open>The pressure force of an isolated pair\<close>

lemma force_visit_cases:
  "force_visit i j (a, s) =
     (if i \<noteq> j \<and> squaredNorm (vsub (fluidPositions s ! i) (fluidPositions s ! j)) < kernelRadius2 s
           \<and> squaredNorm (vsub (fluidPositions s ! i) (fluidPositions s ! j)) > 1 / 100000
      then (pair_forces i j (vsub (fluidPositions s ! i) (fluidPositions s ! j))
              (squaredNorm (vsub (fluidPositions s ! i) (fluidPositions s ! j))) s a, s)
      else if i \<noteq> j \<and> squaredNorm (vsub (fluidPositions s ! i) (fluidPositions s ! j)) = 0
      then (a, nudge j s)
      else (a, s))"
  by (simp add: force_visit_def Let_def)

lemma pair_forces_pressure:
  "force (pair_forces i j r r2 s a)
     = vsub (force a)
         (smul (particleMass2 s
                 * (fluidPressures s ! i / sqr (fluidDensities s ! i)
                    + fluidPressures s ! j / sqr (fluidDensities s ! j))
                 * spikyGradConstant (kernel s))
            (spikyGrad (kernel s) r (sqrt r2)))"
  by (simp add: pair_forces_def Let_def)

lemma fold_pair:
  assumes "distinct L" "set L \<subseteq> {i, k}" "i \<noteq> k"
  shows "fold (force_visit i) L as = (if k \<in> set L then force_visit i k as else as)"
  using assms
proof (induction L arbitrary: as)
  case Nil
  then show ?case by simp
next
  case (Cons a L)
  show ?case
  proof (cases "a = i")
    case True
    then show ?thesis
      using Cons by (simp add: force_visit_self)
  next
    case False
    then have a: "a = k" using Cons.prems by auto
    then have "k \<notin> set L" using Cons.prems by simp
    then show ?thesis
      using Cons a by simp
  qed
qed

lemma pair_lookup:
  assumes "distinct L" "\<And>j. j \<in> set L \<Longrightarrow> j < 2" "i < 2"
  shows "fold (force_visit i) L as = (if 1 - i \<in> set L then force_visit i (1 - i) as else as)"
proof -
  have "set L \<subseteq> {i, 1 - i}"
  proof
    fix x
    assume "x \<in> set L"
    then have "x < 2"
      using assms(2) by blast
    then show "x \<in> {i, 1 - i}"
      using assms(3) by auto
  qed
  moreover have "i \<noteq> 1 - i" using assms(3) by arith
  ultimately show ?thesis
    using fold_pair assms(1) by blast
qed

lemma squaredNorm_vneg: "squaredNorm (vneg r) = squaredNorm r"
  by (simp add: squaredNorm_def dot_def vneg_def vx_def vy_def vz_def)

lemma vsub_swap: "vsub b a = vneg (vsub a b)"
  by (simp add: vsub_def vneg_def vx_def vy_def vz_def)

lemma squaredNorm_swap: "squaredNorm (vsub b a) = squaredNorm (vsub a b)"
  by (simp add: squaredNorm_def dot_def vsub_def vx_def vy_def vz_def algebra_simps)

lemma vneg_vneg: "vneg (vneg a) = a"
  by (simp add: vneg_def vx_def vy_def vz_def)

lemma force_no_force: "force no_force = vzero"
  by (simp add: no_force_def)

lemma three_squares:
  fixes x y z :: real
  assumes "x * x + y * y + z * z = 0"
  shows "x = 0 \<and> y = 0 \<and> z = 0"
proof -
  have "0 \<le> x * x" "0 \<le> y * y" "0 \<le> z * z"
    by simp_all
  with assms have "x * x = 0" "y * y = 0" "z * z = 0"
    by linarith+
  then show ?thesis by simp
qed

lemma squaredNorm_zero: "squaredNorm (vsub a b) = 0 \<Longrightarrow> a = b"
  using three_squares [of "vx a - vx b" "vy a - vy b" "vz a - vz b"]
  by (cases a; cases b) (simp add: squaredNorm_def dot_def vsub_def vx_def vy_def vz_def)

lemma vneg_pressure:
  "vsub vzero (smul c (vneg g)) = vneg (vsub vzero (smul c g))"
  by (simp add: vsub_def vneg_def smul_def vzero_def vx_def vy_def vz_def)


text \<open>
  Claim C9: for an isolated pair of fluid particles with non-zero densities, per-particle
  vectors of two entries each, a grid that keeps
  its contract and a spiky gradient that changes sign with the separation vector, the
  pressure part of the force on particle 0 is the negative of the pressure part of the force
  on particle 1, which the force stage computes next. No relation between the two densities
  or the two pressures is needed, so the equality holds in particular when they are equal.
\<close>

theorem pressure_antisymmetric:
  assumes pair: "length (fluidPositions st) = 2"
    and arrays: "arrays_ok st"
    and ok: "lookup_ok ops st"
    and odd: "odd_spiky (kernel st)"
    and dens: "fluidDensities st ! 0 \<noteq> 0" "fluidDensities st ! 1 \<noteq> 0"
  shows "pressure_force ops 0 st = vneg (pressure_force ops 1 (force_at ops 0 st))"
proof -
  let ?x0 = "fluidPositions st ! 0"
  let ?x1 = "fluidPositions st ! 1"
  let ?r2 = "squaredNorm (vsub ?x0 ?x1)"
  let ?c = "particleMass2 st
      * (fluidPressures st ! 0 / sqr (fluidDensities st ! 0)
         + fluidPressures st ! 1 / sqr (fluidDensities st ! 1))
      * spikyGradConstant (kernel st)"
  let ?L0 = "glookup ops (fluidGrid st) ?x0 (kernelRadius st)"
  have acc0: "accumulate ops 0 st = (if 1 \<in> set ?L0 then force_visit 0 1 (no_force, st) else (no_force, st))"
    using pair_lookup [OF lookup_okD(1) [OF ok], of "?x0" 0 "(no_force, st)"]
      lookup_okD(2) [OF ok, of _ "?x0"] pair
    by (simp add: accumulate_def)
  obtain F where s': "force_at ops 0 st = (snd (accumulate ops 0 st))\<lparr> fluidForces := F \<rparr>"
    using force_at_state by blast
  define s where "s = force_at ops 0 st"
  have r2': "squaredNorm (vsub ?x1 ?x0) = ?r2"
    by (rule squaredNorm_swap)
  show ?thesis
  proof (cases "?r2 < kernelRadius2 st \<and> ?r2 > 1 / 100000")
    case True
    have in0: "1 \<in> set ?L0"
      using lookup_okD(3) [OF ok, of 1 "?x0"] pair True by simp
    have a0: "accumulate ops 0 st = (pair_forces 0 1 (vsub ?x0 ?x1) ?r2 st no_force, st)"
      using True in0 by (simp add: acc0 force_visit_cases)
    have p0: "pressure_force ops 0 st
        = vsub vzero (smul ?c (spikyGrad (kernel st) (vsub ?x0 ?x1) (sqrt ?r2)))"
      by (simp add: pressure_force_def a0 pair_forces_pressure no_force_def)
    have s: "s = st\<lparr> fluidForces := F \<rparr>"
      by (simp add: s_def s' a0)
    let ?L1 = "glookup ops (fluidGrid s) ?x1 (kernelRadius s)"
    have in1: "0 \<in> set ?L1"
      using lookup_okD(3) [OF ok, of 0 "?x1"] pair True r2' by (simp add: s)
    have "accumulate ops 1 s = force_visit 1 0 (no_force, s)"
      using pair_lookup [OF lookup_okD(1) [OF ok], of "?x1" 1 "(no_force, s)"]
        lookup_okD(2) [OF ok, of _ "?x1"] pair in1
      by (simp add: accumulate_def s)
    then have a1: "accumulate ops 1 s = (pair_forces 1 0 (vsub ?x1 ?x0) ?r2 s no_force, s)"
      using True r2' by (simp add: force_visit_cases s)
    have "pressure_force ops 1 s = force (pair_forces 1 0 (vsub ?x1 ?x0) ?r2 s no_force)"
      unfolding pressure_force_def a1 by simp
    also have "\<dots> = vsub vzero (smul ?c (spikyGrad (kernel st) (vsub ?x1 ?x0) (sqrt ?r2)))"
      by (simp add: pair_forces_pressure no_force_def s add.commute)
    also have "vsub ?x1 ?x0 = vneg (vsub ?x0 ?x1)"
      by (rule vsub_swap)
    finally have p1: "pressure_force ops 1 s
        = vsub vzero (smul ?c (spikyGrad (kernel st) (vneg (vsub ?x0 ?x1)) (sqrt ?r2)))" .
    have og: "spikyGrad (kernel st) (vneg r) rn = vneg (spikyGrad (kernel st) r rn)" for r rn
      using odd unfolding odd_spiky_def by blast
    show ?thesis
      unfolding s_def [symmetric] p0 p1 og vneg_pressure vneg_vneg ..
  next
    case False
    have f0: "fst (force_visit 0 1 (no_force, st)) = no_force"
      using False by (auto simp: force_visit_cases)
    have p0: "pressure_force ops 0 st = vzero"
      using f0 by (simp add: pressure_force_def acc0 force_no_force)
    have sn: "snd (accumulate ops 0 st) = st \<or> (?r2 = 0 \<and> snd (accumulate ops 0 st) = nudge 1 st)"
      using False by (auto simp: acc0 force_visit_cases)
    have far: "\<not> (squaredNorm (vsub (fluidPositions s ! 1) (fluidPositions s ! 0)) < kernelRadius2 s
          \<and> squaredNorm (vsub (fluidPositions s ! 1) (fluidPositions s ! 0)) > 1 / 100000)"
    proof -
      from sn show ?thesis
      proof
        assume "snd (accumulate ops 0 st) = st"
        then have "s = st\<lparr> fluidForces := F \<rparr>" by (simp add: s_def s')
        then show ?thesis
          using False r2' by auto
      next
        assume n: "?r2 = 0 \<and> snd (accumulate ops 0 st) = nudge 1 st"
        then have e: "s = (nudge 1 st)\<lparr> fluidForces := F \<rparr>" by (simp add: s_def s')
        have "?x0 = ?x1"
          using n by (simp add: squaredNorm_zero)
        then have "squaredNorm (vsub (fluidPositions s ! 1) (fluidPositions s ! 0)) = 3 / 10000000000"
          using pair by (cases "?x1")
            (simp add: e nudge_def squaredNorm_def dot_def vsub_def vadd_def
              vconst_def vx_def vy_def vz_def)
        then show ?thesis by simp
      qed
    qed
    have gs: "fluidGrid s = fluidGrid st" "kernelRadius s = kernelRadius st"
      using sn by (auto simp: s_def s' nudge_def)
    have "accumulate ops 1 s = (if 0 \<in> set (glookup ops (fluidGrid s) (fluidPositions s ! 1) (kernelRadius s))
        then force_visit 1 0 (no_force, s) else (no_force, s))"
      using pair_lookup [OF lookup_okD(1) [OF ok], of "fluidPositions s ! 1" 1 "(no_force, s)"]
        lookup_okD(2) [OF ok, of _ "fluidPositions s ! 1"] pair
      by (simp add: accumulate_def gs)
    moreover have "fst (force_visit 1 0 (no_force, s)) = no_force"
      using far by (auto simp: force_visit_cases)
    ultimately have "pressure_force ops 1 s = vzero"
      by (simp add: pressure_force_def force_no_force)
    then show ?thesis
      unfolding s_def [symmetric] p0 by (simp add: vneg_def vzero_def vx_def vy_def vz_def)
  qed
qed

lemma odd_spiky_kernel_init: "odd_spiky (kernel_init h)"
  by (simp add: odd_spiky_def kernel_init_def vneg_def smul_def vzero_def vx_def vy_def vz_def)

lemma computeNormals_shape:
  "\<exists>n. computeNormals ops st = st\<lparr> fluidNormals := n \<rparr> \<and> length n = length (fluidNormals st)"
proof -
  have "\<exists>n. fold (normal_at ops) xs s = s\<lparr> fluidNormals := n \<rparr> \<and> length n = length (fluidNormals s)"
    for xs and s :: "'a SPH"
  proof (induction xs arbitrary: s)
    case Nil
    have "s = s\<lparr> fluidNormals := fluidNormals s \<rparr>" by simp
    then show ?case by (metis fold_simps(1))
  next
    case (Cons a xs)
    obtain n where n: "normal_at ops a s = s\<lparr> fluidNormals := n \<rparr>"
      "length n = length (fluidNormals s)"
      using normal_at_shape by blast
    obtain m where "fold (normal_at ops) xs (s\<lparr> fluidNormals := n \<rparr>)
        = s\<lparr> fluidNormals := n \<rparr>\<lparr> fluidNormals := m \<rparr>"
      "length m = length (fluidNormals (s\<lparr> fluidNormals := n \<rparr>))"
      using Cons by blast
    then have "fold (normal_at ops) (a # xs) s = s\<lparr> fluidNormals := m \<rparr>
        \<and> length m = length (fluidNormals s)"
      using n by simp
    then show ?case ..
  qed
  then show ?thesis
    by (simp add: computeNormals_def iterate_def)
qed

lemma computeDensity_shape:
  "\<exists>D P. computeDensity ops st = st\<lparr> fluidDensities := D, fluidPressures := P \<rparr>
     \<and> length D = length (fluidDensities st) \<and> length P = length (fluidPressures st)"
  using density_upto [of ops "length (fluidPositions st)" st]
  unfolding computeDensity_def iterate_def by blast

lemma two_particles_fields:
  "fluidGrid two_particles = 0"
  "particleMass two_particles = 8 / 1000"
  "kernelRadius2 two_particles = 16 / 10000"
  "fluidPositions two_particles = [(0, 0, 0), (1 / 50, 0, 0)]"
  "fluidVelocities two_particles = [vzero, vzero]"
  "fluidNormals two_particles = [vzero, vzero]"
  "fluidForces two_particles = [vzero, vzero]"
  "fluidDensities two_particles = [0, 0]"
  "fluidPressures two_particles = [0, 0]"
  "kernel two_particles = kernel_init (4 / 100)"
  by (simp_all add: two_particles_def SPH_init_fields default_settings_def getOr_def
      voxelize_segment cube_def sqr_def one_cell_def numeral_2_eq_2)

text \<open>
  Claim C9 at the two particles 0.02 apart, whose densities and pressures after the density
  stage are equal and whose density is positive.
\<close>

theorem pressure_antisymmetric_witness:
  "length (fluidPositions pair_ready) = 2
   \<and> arrays_ok pair_ready
   \<and> fluidDensities pair_ready ! 0 = fluidDensities pair_ready ! 1
   \<and> fluidPressures pair_ready ! 0 = fluidPressures pair_ready ! 1
   \<and> 0 < fluidDensities pair_ready ! 0
   \<and> pressure_force one_cell 0 pair_ready
       = vneg (pressure_force one_cell 1 (force_at one_cell 0 pair_ready))"
proof -
  define s1 where "s1 = two_particles\<lparr> fluidGrid := 2 \<rparr>"
  have s1: "grid_update one_cell two_particles = s1"
    by (simp add: s1_def grid_update_one_cell two_particles_fields)
  have f: "fluidPositions s1 = [(0, 0, 0), (1 / 50, 0, 0)]" "kernelRadius2 s1 = 16 / 10000"
    "fluidGrid s1 = 2" "kernel s1 = kernel_init (4 / 100)" "particleMass s1 = 8 / 1000"
    by (simp_all add: s1_def two_particles_fields)
  have l: "[0..<2] = [0, Suc 0]"
    by (simp add: numeral_2_eq_2)
  have ok1: "lookup_ok one_cell s1"
    by (auto simp: lookup_ok_def one_cell_ops f l)
  have ar: "arrays_ok s1"
    by (simp add: arrays_ok_def s1_def two_particles_fields)
  obtain n where pr: "pair_ready = (computeDensity one_cell s1)\<lparr> fluidNormals := n \<rparr>"
    and ln: "length n = length (fluidNormals (computeDensity one_cell s1))"
    using computeNormals_shape [of one_cell "computeDensity one_cell s1"]
    by (auto simp: pair_ready_def s1)
  obtain D P where cd: "computeDensity one_cell s1 = s1\<lparr> fluidDensities := D, fluidPressures := P \<rparr>"
    and lD: "length D = length (fluidDensities s1)" and lP: "length P = length (fluidPressures s1)"
    using computeDensity_shape by blast
  have arp: "arrays_ok pair_ready"
    using ar ln lD lP by (simp add: arrays_ok_def pr cd)
  have pos: "fluidPositions pair_ready = [(0, 0, 0), (1 / 50, 0, 0)]"
    by (simp add: pr computeDensity_frame f)
  have len: "length (fluidPositions pair_ready) = 2"
    by (simp add: pos)
  have nb: "neighbours s1 0 = {0, 1}" "neighbours s1 1 = {0, 1}"
    by (auto simp: neighbours_def f squaredNorm_def dot_def vsub_def vx_def vy_def vz_def
        less_Suc_eq numeral_2_eq_2)
  have d0: "fluidDensities pair_ready ! 0 = density_value one_cell s1 0"
    using computeDensity_values(1) [OF ar, of 0 one_cell] by (simp add: pr f)
  have d1: "fluidDensities pair_ready ! 1 = density_value one_cell s1 1"
    using computeDensity_values(1) [OF ar, of 1 one_cell] by (simp add: pr f)
  have p0: "fluidPressures pair_ready ! 0 = pressure_value s1 (density_value one_cell s1 0)"
    using computeDensity_values(2) [OF ar, of 0 one_cell] by (simp add: pr f)
  have p1: "fluidPressures pair_ready ! 1 = pressure_value s1 (density_value one_cell s1 1)"
    using computeDensity_values(2) [OF ar, of 1 one_cell] by (simp add: pr f)
  have i0: "0 < length (fluidPositions s1)" and i1: "1 < length (fluidPositions s1)"
    by (simp_all add: f)
  have v0: "density_value one_cell s1 0
      = poly6Constant (kernel s1) * particleMass s1
        * (poly6 (kernel s1) 0 + poly6 (kernel s1) (4 / 10000))"
    using density_value_sum [OF ok1 i0] unfolding nb
    by (simp add: f squaredNorm_def dot_def vsub_def vx_def vy_def vz_def)
  have v1: "density_value one_cell s1 1
      = poly6Constant (kernel s1) * particleMass s1
        * (poly6 (kernel s1) 0 + poly6 (kernel s1) (4 / 10000))"
    using density_value_sum [OF ok1 i1] unfolding nb
    by (simp add: f squaredNorm_def dot_def vsub_def vx_def vy_def vz_def)
  have eqd: "fluidDensities pair_ready ! 0 = fluidDensities pair_ready ! 1"
    by (simp only: d0 d1 v0 v1)
  have eqp: "fluidPressures pair_ready ! 0 = fluidPressures pair_ready ! 1"
    by (simp only: p0 p1 v0 v1)
  have "0 < poly6Constant (kernel s1)" "0 < poly6 (kernel s1) 0" "0 < poly6 (kernel s1) (4 / 10000)"
    by (simp_all add: f kernel_init_def zero_less_divide_iff zero_less_mult_iff)
  then have posd: "0 < fluidDensities pair_ready ! 0"
    unfolding d0 v0 by (simp add: f zero_less_mult_iff add_pos_pos)
  have ok: "lookup_ok one_cell pair_ready"
    using ok1 by (simp add: lookup_ok_def pr cd)
  have k: "odd_spiky (kernel pair_ready)"
    by (simp add: pr cd f odd_spiky_kernel_init)
  have nz: "fluidDensities pair_ready ! 0 \<noteq> 0" "fluidDensities pair_ready ! 1 \<noteq> 0"
    using posd eqd by simp_all
  show ?thesis
    using pressure_antisymmetric [OF len arp ok k nz] len arp eqd eqp posd by simp
qed


section \<open>The step, stage by stage\<close>






































section \<open>Rounding to binary32\<close>

lemma rne_of_int [simp]: "rne (of_int k) = k"
  by (simp add: rne_def)




lemma powi_powr: "(2::real) powi e = 2 powr real_of_int e"
  by (simp add: powr_real_of_int')

lemma powi_pos [simp]: "0 < (2::real) powi e"
  by (simp add: power_int_def)

lemma expo_normal:
  assumes "2 powi e \<le> \<bar>x\<bar>" "\<bar>x\<bar> < 2 powi (e + 1)" "- 126 \<le> e"
  shows "expo x = e"
proof -
  have "0 < \<bar>x\<bar>"
    using assms(1) powi_pos [of e] by linarith
  then have "\<lfloor>log 2 \<bar>x\<bar>\<rfloor> = e"
    using assms(1,2) by (simp add: floor_log_eq_powr_iff powi_powr)
  then show ?thesis
    using assms(3) by (simp add: expo_def)
qed

lemma expo_tiny:
  assumes "x \<noteq> 0" "\<bar>x\<bar> < 2 powi (- 126)"
  shows "expo x = - 126"
proof -
  have p: "0 < \<bar>x\<bar>"
    using assms(1) by simp
  have "\<bar>x\<bar> < 2 powr real_of_int (- 126)"
    using assms(2) unfolding powi_powr .
  then have "log 2 \<bar>x\<bar> < real_of_int (- 126)"
    using p by (subst log_less_iff) simp_all
  then have "\<lfloor>log 2 \<bar>x\<bar>\<rfloor> < - 126"
    by (simp add: floor_less_iff)
  then show ?thesis
    by (simp add: expo_def)
qed




lemma expo_minus [simp]: "expo (- x) = expo x"
  by (simp add: expo_def)

lemma ulp_minus [simp]: "ulp (- x) = ulp x"
  by (simp add: ulp_def)

lemma ulp_pos [simp]: "0 < ulp x"
  by (simp add: ulp_def)

lemma powi_shift: "(2::real) powi (e - 23) * 2 ^ 23 = 2 powi e"
  by (simp add: power_int_diff)

lemma powi_shift': "(2::real) powi (e - 23) = 2 powi e / 2 ^ 23"
  by (simp add: power_int_diff)

lemma powi_succ: "(2::real) powi (e + 1) = 2 * 2 powi e"
  by (simp add: power_int_add)

lemma round32_zero [simp]: "round32 0 = Fin 0"
  by (simp add: round32_def)

lemma round32_minus: "round32 (- x) = fneg (round32 x)"
  by (simp add: round32_def Let_def sgn_if)

text \<open>A multiple of the unit in the last place of its own binade is kept by the rounding.\<close>

lemma round32_fixed:
  assumes e: "expo m = e" and k: "m = 2 powi (e - 23) * of_int k" "0 \<le> k" and b: "m < 2 ^ 128"
  shows "round32 m = Fin m"
proof (cases "m = 0")
  case True
  then show ?thesis by simp
next
  case False
  have u: "ulp m = 2 powi (e - 23)"
    by (simp add: ulp_def e)
  have m0: "0 \<le> m"
    using k by simp
  then have a: "\<bar>m\<bar> = m" and s: "sgn m = 1"
    using False by simp_all
  have q: "\<bar>m\<bar> / ulp m = of_int k"
    unfolding a u using k(1) by simp
  have "ulp m * of_int (rne (\<bar>m\<bar> / ulp m)) = ulp m * of_int k"
    by (simp only: q rne_of_int)
  also have "\<dots> = m"
    unfolding u by (rule k(1) [symmetric])
  finally have r: "ulp m * of_int (rne (\<bar>m\<bar> / ulp m)) = m" .
  have nb: "\<not> 2 ^ 128 \<le> m"
    using b by simp
  show ?thesis
    unfolding round32_def Let_def r s using False nb by simp
qed

lemma round32_multiple:
  assumes e: "- 126 \<le> e" and k: "0 \<le> k" "k \<le> 2 ^ 24" and s: "k < 2 ^ 23 \<longrightarrow> e = - 126"
    and b: "2 powi (e - 23) * of_int k < (2::real) ^ 128"
  shows "round32 (2 powi (e - 23) * of_int k) = Fin (2 powi (e - 23) * of_int k)"
proof -
  let ?u = "(2::real) powi (e - 23)"
  let ?m = "?u * of_int k"
  consider "k = 0" | "0 < k" "k < 2 ^ 23" | "2 ^ 23 \<le> k" "k < 2 ^ 24" | "k = 2 ^ 24"
    using k by linarith
  then show ?thesis
  proof cases
    case 1
    then show ?thesis by simp
  next
    case 2
    then have e': "e = - 126"
      using s by simp
    have "real_of_int k < 2 ^ 23"
      using 2(2) by (metis of_int_less_iff of_int_numeral of_int_power)
    then have "?u * of_int k < ?u * 2 ^ 23"
      by (simp add: mult_strict_left_mono)
    then have lt: "?m < 2 powi (- 126)"
      unfolding powi_shift by (simp add: e')
    have pos: "0 < ?m"
      using 2(1) by simp
    have ne: "?m \<noteq> 0"
      using pos by (rule less_imp_neq [symmetric])
    have "\<bar>?m\<bar> = ?m"
      using pos by (simp only: abs_of_pos)
    then have "\<bar>?m\<bar> < 2 powi (- 126)"
      using lt by (simp only:)
    then have "expo ?m = - 126"
      using ne by (intro expo_tiny)
    then have "expo ?m = e"
      by (simp only: e')
    then show ?thesis
      using k(1) b by (rule round32_fixed [OF _ refl])
  next
    case 3
    have lo: "(2::real) ^ 23 \<le> of_int k"
      using 3(1) by (metis of_int_le_iff of_int_numeral of_int_power)
    have hi: "real_of_int k < 2 ^ 24"
      using 3(2) by (metis of_int_less_iff of_int_numeral of_int_power)
    have "?u * 2 ^ 23 \<le> ?u * of_int k"
      using lo by (simp add: mult_left_mono)
    then have ge: "2 powi e \<le> ?m"
      unfolding powi_shift .
    have "?u * of_int k < ?u * 2 ^ 24"
      using hi by (simp add: mult_strict_left_mono)
    also have "?u * 2 ^ 24 = 2 powi (e + 1)"
      by (simp add: powi_succ powi_shift')
    finally have lt: "?m < 2 powi (e + 1)" .
    have pos: "0 \<le> ?m"
      using k(1) by simp
    have a: "\<bar>?m\<bar> = ?m"
      using pos by simp
    have "expo ?m = e"
      using ge lt e by (intro expo_normal) (simp_all only: a)
    then show ?thesis
      using k(1) b by (rule round32_fixed [OF _ refl])
  next
    case 4
    have m: "?m = 2 powi (e + 1)"
      by (simp add: 4 powi_succ powi_shift')
    have "(2::real) powi ((e + 1) - 23) * of_int (2 ^ 23) = 2 powi ((e + 1) - 23) * 2 ^ 23"
      by simp
    also have "\<dots> = 2 powi (e + 1)"
      by (rule powi_shift)
    finally have m': "?m = 2 powi ((e + 1) - 23) * of_int (2 ^ 23)"
      unfolding m by (rule sym)
    have a: "\<bar>(2::real) powi (e + 1)\<bar> = 2 powi (e + 1)"
      by simp
    have "(2::real) powi (e + 1) < 2 powi (e + 1 + 1)"
      by (intro power_int_strict_increasing) simp_all
    then have lt: "\<bar>(2::real) powi (e + 1)\<bar> < 2 powi (e + 1 + 1)"
      by (simp only: a)
    have ge: "(2::real) powi (e + 1) \<le> \<bar>2 powi (e + 1)\<bar>"
      by (simp only: a order_refl)
    have e1: "- 126 \<le> e + 1"
      using e by simp
    have "expo (2 powi (e + 1)) = e + 1"
      using ge lt e1 by (rule expo_normal)
    then have "expo ?m = e + 1"
      by (simp only: m)
    then show ?thesis
      using m' _ b by (rule round32_fixed) simp
  qed
qed


lemma representable_minus: "representable x \<Longrightarrow> representable (- x)"
  by (simp add: representable_def round32_minus)

lemma representable_zero [simp]: "representable 0"
  by (simp add: representable_def)

lemma representable_one [simp]: "representable 1" "representable (- 1)"
proof -
  have "round32 (2 powi (0 - 23) * of_int (2 ^ 23)) = Fin (2 powi (0 - 23) * of_int (2 ^ 23))"
    by (rule round32_multiple) simp_all
  then show "representable 1"
    by (simp add: representable_def)
  then show "representable (- 1)"
    by (rule representable_minus)
qed


section \<open>The collision stage in binary32, position by position\<close>

lemma fl_step_XMin:
  "(let p = fl_positions st ! i in
      if flt (fx p) (fx (fbmin (fl_bounds st)))
      then fl_collision_handler i (Fin 1, Fin 0, Fin 0) (fsub (fx (fbmin (fl_bounds st))) (fx p)) st
      else st)
   = fl_respond i XMin st"
  by (simp add: fl_respond_def fl_violated_def fl_penetration_def fl_face_bound_def Let_def)

lemma fl_step_XMax:
  "(let p = fl_positions st ! i in
      if fgt (fx p) (fx (fbmax (fl_bounds st)))
      then fl_collision_handler i (Fin (- 1), Fin 0, Fin 0) (fsub (fx p) (fx (fbmax (fl_bounds st)))) st
      else st)
   = fl_respond i XMax st"
  by (simp add: fl_respond_def fl_violated_def fl_penetration_def fl_face_bound_def Let_def)

lemma fl_step_YMin:
  "(let p = fl_positions st ! i in
      if flt (fy p) (fy (fbmin (fl_bounds st)))
      then fl_collision_handler i (Fin 0, Fin 1, Fin 0) (fsub (fy (fbmin (fl_bounds st))) (fy p)) st
      else st)
   = fl_respond i YMin st"
  by (simp add: fl_respond_def fl_violated_def fl_penetration_def fl_face_bound_def Let_def)

lemma fl_step_YMax:
  "(let p = fl_positions st ! i in
      if fgt (fy p) (fy (fbmax (fl_bounds st)))
      then fl_collision_handler i (Fin 0, Fin (- 1), Fin 0) (fsub (fy p) (fy (fbmax (fl_bounds st)))) st
      else st)
   = fl_respond i YMax st"
  by (simp add: fl_respond_def fl_violated_def fl_penetration_def fl_face_bound_def Let_def)

lemma fl_step_ZMin:
  "(let p = fl_positions st ! i in
      if flt (fz p) (fz (fbmin (fl_bounds st)))
      then fl_collision_handler i (Fin 0, Fin 0, Fin 1) (fsub (fz (fbmin (fl_bounds st))) (fz p)) st
      else st)
   = fl_respond i ZMin st"
  by (simp add: fl_respond_def fl_violated_def fl_penetration_def fl_face_bound_def Let_def)

lemma fl_step_ZMax:
  "(let p = fl_positions st ! i in
      if fgt (fz p) (fz (fbmax (fl_bounds st)))
      then fl_collision_handler i (Fin 0, Fin 0, Fin (- 1)) (fsub (fz p) (fz (fbmax (fl_bounds st)))) st
      else st)
   = fl_respond i ZMax st"
  by (simp add: fl_respond_def fl_violated_def fl_penetration_def fl_face_bound_def Let_def)

lemma fl_collide_at_faces:
  "fl_collide_at fl_collision_handler i st = fold (fl_respond i) faces st"
  unfolding fl_collide_at_def fl_step_XMin fl_step_XMax fl_step_YMin fl_step_YMax
    fl_step_ZMin fl_step_ZMax
  by (simp add: faces_def Let_def)

lemma fl_respond_bounds [simp]: "fl_bounds (fl_respond i f st) = fl_bounds st"
  by (simp add: fl_respond_def fl_collision_handler_def Let_def)

lemma fl_respond_positions:
  "fl_positions (fl_respond i f st)
     = (fl_positions st)[i := fl_clamp_face (fl_bounds st) f (fl_positions st ! i)]"
  by (simp add: fl_respond_def fl_clamp_face_def fl_collision_handler_def Let_def)

lemma fl_respond_length [simp]:
  "length (fl_positions (fl_respond i f st)) = length (fl_positions st)"
  by (simp add: fl_respond_positions)

lemma fl_faces_positions:
  assumes "i < length (fl_positions st)"
  shows "fl_positions (fold (fl_respond i) faces st)
     = (fl_positions st)[i := fl_project (fl_bounds st) (fl_positions st ! i)]"
  using assms by (simp add: faces_def fl_project_def fl_respond_positions)

lemma fl_collide_at_bounds [simp]:
  "fl_bounds (fl_collide_at fl_collision_handler i st) = fl_bounds st"
  by (simp add: fl_collide_at_faces faces_def)

lemma fl_collide_at_length [simp]:
  "length (fl_positions (fl_collide_at fl_collision_handler i st)) = length (fl_positions st)"
  by (simp add: fl_collide_at_faces faces_def)

lemma fl_collide_at_positions:
  "i < length (fl_positions st) \<Longrightarrow>
   fl_positions (fl_collide_at fl_collision_handler i st)
     = (fl_positions st)[i := fl_project (fl_bounds st) (fl_positions st ! i)]"
  by (simp add: fl_collide_at_faces fl_faces_positions)

lemma fl_collide_upto:
  assumes "n \<le> length (fl_positions st)"
  shows "fl_bounds (fold (fl_collide_at fl_collision_handler) [0..<n] st) = fl_bounds st
     \<and> length (fl_positions (fold (fl_collide_at fl_collision_handler) [0..<n] st))
         = length (fl_positions st)
     \<and> (\<forall>k. k < length (fl_positions st) \<longrightarrow>
          fl_positions (fold (fl_collide_at fl_collision_handler) [0..<n] st) ! k
            = (if k < n then fl_project (fl_bounds st) (fl_positions st ! k)
               else fl_positions st ! k))"
  using assms
proof (induction n)
  case 0
  then show ?case by simp
next
  case (Suc n)
  define s where "s = fold (fl_collide_at fl_collision_handler) [0..<n] st"
  have ih: "fl_bounds s = fl_bounds st" "length (fl_positions s) = length (fl_positions st)"
    "\<And>k. k < length (fl_positions st) \<Longrightarrow>
       fl_positions s ! k = (if k < n then fl_project (fl_bounds st) (fl_positions st ! k)
               else fl_positions st ! k)"
    using Suc unfolding s_def by simp_all
  have n: "n < length (fl_positions s)" using Suc.prems ih(2) by simp
  have step: "fold (fl_collide_at fl_collision_handler) [0..<Suc n] st
      = fl_collide_at fl_collision_handler n s"
    by (simp add: s_def)
  show ?case
    unfolding step using n ih
    by (auto simp: fl_collide_at_positions nth_list_update)
qed


lemma fl_computeCollisions_bounds:
  "fl_bounds (fl_computeCollisions fl_collision_handler st) = fl_bounds st"
  using fl_collide_upto [of "length (fl_positions st)" st]
  by (simp add: fl_computeCollisions_def iterate_def)

section \<open>The rounding error of a response\<close>






section \<open>The six tests on a position\<close>








section \<open>Confinement up to rounding\<close>





section \<open>The stage on three particles\<close>



















end
